theory Spec2Isabelle
  imports Complex_Main "HOL-Library.Char_ord" "HOL-Library.List_Lexorder"
begin

section \<open>Python strings\<close>

text \<open>
  Strings are lists of characters. The helpers below are the \<^verbatim>\<open>str\<close> methods the scripts
  call, on ASCII text: \<^verbatim>\<open>strip\<close>, \<^verbatim>\<open>lower\<close>, \<^verbatim>\<open>upper\<close>, \<^verbatim>\<open>startswith\<close>, \<^verbatim>\<open>endswith\<close>,
  \<^verbatim>\<open>in\<close>, \<^verbatim>\<open>split\<close> and \<^verbatim>\<open>join\<close>.
\<close>

definition is_space :: "char \<Rightarrow> bool" where
  "is_space c = (c \<in> set [CHR 0x09, CHR 0x0A, CHR 0x0B, CHR 0x0C, CHR 0x0D,
                           CHR 0x1C, CHR 0x1D, CHR 0x1E, CHR 0x1F, CHR 0x20])"

definition lstrip :: "string \<Rightarrow> string" where
  "lstrip s = dropWhile is_space s"

definition rstrip :: "string \<Rightarrow> string" where
  "rstrip s = rev (dropWhile is_space (rev s))"

definition strip :: "string \<Rightarrow> string" where
  "strip s = rstrip (lstrip s)"

definition lower_char :: "char \<Rightarrow> char" where
  "lower_char c =
     (case map_of (zip ''ABCDEFGHIJKLMNOPQRSTUVWXYZ'' ''abcdefghijklmnopqrstuvwxyz'') c of
        Some d \<Rightarrow> d | None \<Rightarrow> c)"

definition upper_char :: "char \<Rightarrow> char" where
  "upper_char c =
     (case map_of (zip ''abcdefghijklmnopqrstuvwxyz'' ''ABCDEFGHIJKLMNOPQRSTUVWXYZ'') c of
        Some d \<Rightarrow> d | None \<Rightarrow> c)"

definition lower :: "string \<Rightarrow> string" where
  "lower s = map lower_char s"

definition upper :: "string \<Rightarrow> string" where
  "upper s = map upper_char s"

definition startswith :: "string \<Rightarrow> string \<Rightarrow> bool" where
  "startswith s p = (take (length p) s = p)"

definition endswith :: "string \<Rightarrow> string \<Rightarrow> bool" where
  "endswith s p = (length p \<le> length s \<and> drop (length s - length p) s = p)"

text \<open>\<^verbatim>\<open>sub in s\<close>: \<open>sub\<close> occurs in \<open>s\<close> as a contiguous piece.\<close>

fun str_contains :: "string \<Rightarrow> string \<Rightarrow> bool" where
  "str_contains [] sub = (sub = [])"
| "str_contains (c # cs) sub = (startswith (c # cs) sub \<or> str_contains cs sub)"

text \<open>\<^verbatim>\<open>s.split(d)\<close> for a one-character separator: always at least one piece.\<close>

fun split_on :: "char \<Rightarrow> string \<Rightarrow> string list" where
  "split_on d [] = [[]]"
| "split_on d (c # cs) =
     (if c = d then [] # split_on d cs
      else (case split_on d cs of [] \<Rightarrow> [[c]] | p # ps \<Rightarrow> (c # p) # ps))"

fun join :: "string \<Rightarrow> string list \<Rightarrow> string" where
  "join sep [] = []"
| "join sep [p] = p"
| "join sep (p # q # ps) = p @ sep @ join sep (q # ps)"

text \<open>\<^verbatim>\<open>enumerate(xs, 1)\<close>.\<close>

definition enumerate1 :: "'a list \<Rightarrow> (nat \<times> 'a) list" where
  "enumerate1 xs = List.enumerate 1 xs"

section \<open>Paths\<close>

text \<open>
  A \<^verbatim>\<open>pathlib\<close> path on a POSIX system is its tuple of parts: \<^verbatim>\<open>Path("/a/b.csv").parts\<close> is
  \<^verbatim>\<open>('/', 'a', 'b.csv')\<close>, \<^verbatim>\<open>Path("a/b.csv").parts\<close> is \<^verbatim>\<open>('a', 'b.csv')\<close> and \<^verbatim>\<open>Path(".")\<close> has
  no parts. A first part that starts with a slash is the anchor. Paths compare as their
  tuples of parts do, which is the lexicographic order of lists of strings.
\<close>

type_synonym path = "string list"

definition is_anchor :: "string \<Rightarrow> bool" where
  "is_anchor s = (case s of [] \<Rightarrow> False | c # _ \<Rightarrow> c = CHR ''/'')"

definition has_anchor :: "path \<Rightarrow> bool" where
  "has_anchor p = (case p of [] \<Rightarrow> False | a # _ \<Rightarrow> is_anchor a)"

text \<open>\<^verbatim>\<open>str(p)\<close>\<close>

definition path_str :: "path \<Rightarrow> string" where
  "path_str p =
     (case p of
        [] \<Rightarrow> ''.''
      | a # rest \<Rightarrow> if is_anchor a then a @ join ''/'' rest else join ''/'' (a # rest))"

text \<open>\<^verbatim>\<open>p.name\<close>: the last part, unless the path is only its anchor or has no part.\<close>

definition path_name :: "path \<Rightarrow> string" where
  "path_name p = (if length p \<le> (if has_anchor p then 1 else 0) then [] else last p)"

text \<open>\<^verbatim>\<open>p.parent\<close>: the path without its last part; the anchor and \<^verbatim>\<open>Path(".")\<close> are their own parent.\<close>

definition path_parent :: "path \<Rightarrow> path" where
  "path_parent p = (if length p \<le> (if has_anchor p then 1 else 0) then p else butlast p)"

text \<open>\<^verbatim>\<open>name.rfind('.')\<close>: the index of the last dot, if there is one.\<close>

fun rfind_dot :: "string \<Rightarrow> nat option" where
  "rfind_dot [] = None"
| "rfind_dot (c # cs) =
     (case rfind_dot cs of
        Some i \<Rightarrow> Some (Suc i)
      | None \<Rightarrow> if c = CHR ''.'' then Some 0 else None)"

text \<open>\<^verbatim>\<open>p.stem\<close>: the name up to its last dot, when that dot is neither first nor last.\<close>

definition path_stem :: "path \<Rightarrow> string" where
  "path_stem p =
     (let name = path_name p in
      case rfind_dot name of
        None \<Rightarrow> name
      | Some i \<Rightarrow> if 0 < i \<and> i < length name - 1 then take i name else name)"

section \<open>The files and the library\<close>

text \<open>
  What a script reads from a file is given by a file system: the lines a text handle
  yields when iterated, and the rows \<^verbatim>\<open>csv.reader\<close> yields for it. The two library parsers,
  \<^verbatim>\<open>datetime.strptime(s, DATE_FORMAT)\<close> and \<^verbatim>\<open>float(s)\<close>, are parameters of the functions that
  call them: \<open>None\<close> is the \<^verbatim>\<open>ValueError\<close> they raise on a string they do not accept.
\<close>

record file_system =
  text_lines :: "path \<Rightarrow> string list"
  csv_rows :: "path \<Rightarrow> string list list"

section \<open>plot_ground_temperature.py: the row parsers\<close>

text \<open>\<^verbatim>\<open>determine_skip_lines\<close>\<close>

definition determine_skip_lines :: "path \<Rightarrow> int" where
  "determine_skip_lines csv_file =
     (if str_contains (lower (path_str csv_file)) ''sangvor'' then 22 else 12)"

text \<open>
  The loop of \<^verbatim>\<open>parse_sangvor_file\<close> over \<^verbatim>\<open>enumerate(handle, 1)\<close>, with the two lists it
  appends to. Every \<^verbatim>\<open>continue\<close> is a recursive call with the lists as they are.
\<close>

fun parse_sangvor_loop ::
  "(string \<Rightarrow> 't option) \<Rightarrow> (string \<Rightarrow> 'v option) \<Rightarrow> int \<Rightarrow> (nat \<times> string) list \<Rightarrow>
   't list \<times> 'v list \<Rightarrow> 't list \<times> 'v list" where
  "parse_sangvor_loop strptime to_float skip_lines [] (timestamps, temperatures) =
     (timestamps, temperatures)"
| "parse_sangvor_loop strptime to_float skip_lines ((row_num, raw) # rest) (timestamps, temperatures) =
     (if int row_num \<le> skip_lines
      then parse_sangvor_loop strptime to_float skip_lines rest (timestamps, temperatures)
      else
        let line = strip raw in
        if line = [] \<or> CHR '';'' \<notin> set line
        then parse_sangvor_loop strptime to_float skip_lines rest (timestamps, temperatures)
        else
          let parts = split_on CHR '';'' line in
          if length parts < 2
          then parse_sangvor_loop strptime to_float skip_lines rest (timestamps, temperatures)
          else
            (case strptime (strip (parts ! 0)) of
               None \<Rightarrow> parse_sangvor_loop strptime to_float skip_lines rest (timestamps, temperatures)
             | Some timestamp \<Rightarrow>
                 (case to_float (strip (parts ! 1)) of
                    None \<Rightarrow>
                      parse_sangvor_loop strptime to_float skip_lines rest (timestamps, temperatures)
                  | Some temperature \<Rightarrow>
                      parse_sangvor_loop strptime to_float skip_lines rest
                        (timestamps @ [timestamp], temperatures @ [temperature]))))"

definition parse_sangvor_file ::
  "(string \<Rightarrow> 't option) \<Rightarrow> (string \<Rightarrow> 'v option) \<Rightarrow> file_system \<Rightarrow> path \<Rightarrow> int \<Rightarrow>
   't list \<times> 'v list" where
  "parse_sangvor_file strptime to_float fs path skip_lines =
     parse_sangvor_loop strptime to_float skip_lines (enumerate1 (text_lines fs path)) ([], [])"

text \<open>
  The loop of \<^verbatim>\<open>parse_fanmountains_file\<close> over the rows of the CSV reader. \<^verbatim>\<open>row[1]\<close> and
  \<^verbatim>\<open>row[2]\<close> raise \<^verbatim>\<open>IndexError\<close> on a row of fewer than three fields. In the second
  \<^verbatim>\<open>try\<close> block the timestamp is appended before the temperature is converted, so a
  \<^verbatim>\<open>ValueError\<close> of \<^verbatim>\<open>float\<close> leaves the timestamp in its list.
\<close>

fun parse_fanmountains_loop ::
  "(string \<Rightarrow> 't option) \<Rightarrow> (string \<Rightarrow> 'v option) \<Rightarrow> int \<Rightarrow> (nat \<times> string list) list \<Rightarrow>
   't list \<times> 'v list \<Rightarrow> 't list \<times> 'v list" where
  "parse_fanmountains_loop strptime to_float skip_lines [] (timestamps, temperatures) =
     (timestamps, temperatures)"
| "parse_fanmountains_loop strptime to_float skip_lines ((row_num, row) # rest) (timestamps, temperatures) =
     (if int row_num \<le> skip_lines
      then parse_fanmountains_loop strptime to_float skip_lines rest (timestamps, temperatures)
      else if row = []
      then parse_fanmountains_loop strptime to_float skip_lines rest (timestamps, temperatures)
      else
        let first = strip (row ! 0) in
        if first = [] \<or> startswith first ''<''
        then parse_fanmountains_loop strptime to_float skip_lines rest (timestamps, temperatures)
        else if upper first = ''NO''
        then parse_fanmountains_loop strptime to_float skip_lines rest (timestamps, temperatures)
        else if length row < 3
        then parse_fanmountains_loop strptime to_float skip_lines rest (timestamps, temperatures)
        else
          let datetime_str = strip (row ! 1); temperature_str = strip (row ! 2) in
          (case strptime datetime_str of
             None \<Rightarrow>
               parse_fanmountains_loop strptime to_float skip_lines rest (timestamps, temperatures)
           | Some timestamp \<Rightarrow>
               (case to_float temperature_str of
                  None \<Rightarrow>
                    parse_fanmountains_loop strptime to_float skip_lines rest
                      (timestamps @ [timestamp], temperatures)
                | Some temperature \<Rightarrow>
                    parse_fanmountains_loop strptime to_float skip_lines rest
                      (timestamps @ [timestamp], temperatures @ [temperature]))))"

definition parse_fanmountains_file ::
  "(string \<Rightarrow> 't option) \<Rightarrow> (string \<Rightarrow> 'v option) \<Rightarrow> file_system \<Rightarrow> path \<Rightarrow> int \<Rightarrow>
   't list \<times> 'v list" where
  "parse_fanmountains_file strptime to_float fs path skip_lines =
     (let (timestamps, temperatures) =
            parse_fanmountains_loop strptime to_float skip_lines (enumerate1 (csv_rows fs path)) ([], []);
          min_length = min (length timestamps) (length temperatures)
      in if min_length < length timestamps \<or> min_length < length temperatures
         then (take min_length timestamps, take min_length temperatures)
         else (timestamps, temperatures))"

text \<open>\<^verbatim>\<open>parse_logger_file\<close>\<close>

definition parse_logger_file ::
  "(string \<Rightarrow> 't option) \<Rightarrow> (string \<Rightarrow> 'v option) \<Rightarrow> file_system \<Rightarrow> path \<Rightarrow> int \<Rightarrow>
   't list \<times> 'v list" where
  "parse_logger_file strptime to_float fs path skip_lines =
     (let is_sangvor = str_contains (lower (path_str path)) ''sangvor'' in
      if is_sangvor then parse_sangvor_file strptime to_float fs path skip_lines
      else parse_fanmountains_file strptime to_float fs path skip_lines)"

text \<open>
  What the sangvor format says one data line holds: the sample of a line is its first two
  semicolon-separated fields, converted, when there are two and both convert.
\<close>

definition sangvor_sample ::
  "(string \<Rightarrow> 't option) \<Rightarrow> (string \<Rightarrow> 'v option) \<Rightarrow> string \<Rightarrow> ('t \<times> 'v) option" where
  "sangvor_sample strptime to_float raw =
     (let line = strip raw in
      if line = [] \<or> CHR '';'' \<notin> set line then None
      else
        let parts = split_on CHR '';'' line in
        if length parts < 2 then None
        else
          (case (strptime (strip (parts ! 0)), to_float (strip (parts ! 1))) of
             (Some timestamp, Some temperature) \<Rightarrow> Some (timestamp, temperature)
           | _ \<Rightarrow> None))"

text \<open>The data lines of a file: those whose 1-based number exceeds the header skip.\<close>

definition data_lines :: "int \<Rightarrow> 'a list \<Rightarrow> 'a list" where
  "data_lines skip_lines xs = map snd (filter (\<lambda>(row_num, x). \<not> int row_num \<le> skip_lines) (enumerate1 xs))"

text \<open>
  What the fanmountains format says one row holds. The fields of a data row: a row that is
  not empty, whose first field is not blank, does not start with \<^verbatim>\<open><\<close> and is not \<^verbatim>\<open>NO\<close> in
  any case, and that has three fields, gives its second and third field. The sample of a
  row is these two fields converted, when both convert; the timestamp of a row is the
  first of them converted.
\<close>

definition fanmountains_fields :: "string list \<Rightarrow> (string \<times> string) option" where
  "fanmountains_fields row =
     (if row = [] then None
      else
        let first = strip (row ! 0) in
        if first = [] \<or> startswith first ''<'' then None
        else if upper first = ''NO'' then None
        else if length row < 3 then None
        else Some (strip (row ! 1), strip (row ! 2)))"

definition fanmountains_sample ::
  "(string \<Rightarrow> 't option) \<Rightarrow> (string \<Rightarrow> 'v option) \<Rightarrow> string list \<Rightarrow> ('t \<times> 'v) option" where
  "fanmountains_sample strptime to_float row =
     (case fanmountains_fields row of
        None \<Rightarrow> None
      | Some (datetime_str, temperature_str) \<Rightarrow>
          (case (strptime datetime_str, to_float temperature_str) of
             (Some timestamp, Some temperature) \<Rightarrow> Some (timestamp, temperature)
           | _ \<Rightarrow> None))"

definition fanmountains_timestamp :: "(string \<Rightarrow> 't option) \<Rightarrow> string list \<Rightarrow> 't option" where
  "fanmountains_timestamp strptime row =
     (case fanmountains_fields row of
        None \<Rightarrow> None
      | Some (datetime_str, temperature_str) \<Rightarrow> strptime datetime_str)"

section \<open>plot_ground_temperature.py: the series merger\<close>

text \<open>
  The first loop of \<^verbatim>\<open>concatenate_timeseries\<close>: every file of the group is parsed with the
  header skip of its format, and its two lists are appended to the two running lists.
\<close>

fun read_file_group ::
  "(string \<Rightarrow> 't option) \<Rightarrow> (string \<Rightarrow> 'v option) \<Rightarrow> file_system \<Rightarrow> path list \<Rightarrow>
   't list \<times> 'v list \<Rightarrow> 't list \<times> 'v list" where
  "read_file_group strptime to_float fs [] (all_timestamps, all_temperatures) =
     (all_timestamps, all_temperatures)"
| "read_file_group strptime to_float fs (csv_file # rest) (all_timestamps, all_temperatures) =
     (let skip_lines = determine_skip_lines csv_file;
          (timestamps, temps) = parse_logger_file strptime to_float fs csv_file skip_lines
      in read_file_group strptime to_float fs rest
           (all_timestamps @ timestamps, all_temperatures @ temps))"

text \<open>
  The second loop: \<^verbatim>\<open>last_timestamp\<close> starts as \<^verbatim>\<open>None\<close>, and a sample is appended when its
  timestamp differs from \<^verbatim>\<open>last_timestamp\<close>.
\<close>

fun remove_duplicates ::
  "('t \<times> 'v) list \<Rightarrow> 't option \<Rightarrow> ('t \<times> 'v) list \<Rightarrow> ('t \<times> 'v) list" where
  "remove_duplicates [] last_timestamp unique_data = unique_data"
| "remove_duplicates ((timestamp, temp) # rest) last_timestamp unique_data =
     (if Some timestamp \<noteq> last_timestamp
      then remove_duplicates rest (Some timestamp) (unique_data @ [(timestamp, temp)])
      else remove_duplicates rest last_timestamp unique_data)"

text \<open>
  The sort and the removal of duplicates, from the two running lists to the two lists
  returned. \<^verbatim>\<open>list.sort(key=...)\<close> is stable, as \<^const>\<open>sort_key\<close> is.
\<close>

definition sort_and_deduplicate :: "'t::linorder list \<Rightarrow> 'v list \<Rightarrow> 't list \<times> 'v list" where
  "sort_and_deduplicate all_timestamps all_temperatures =
     (if all_timestamps = [] then ([], [])
      else
        let combined = sort_key fst (zip all_timestamps all_temperatures);
            unique_data = remove_duplicates combined None []
        in (map fst unique_data, map snd unique_data))"

definition concatenate_timeseries ::
  "(string \<Rightarrow> 't::linorder option) \<Rightarrow> (string \<Rightarrow> 'v option) \<Rightarrow> file_system \<Rightarrow> path list \<Rightarrow>
   't list \<times> 'v list" where
  "concatenate_timeseries strptime to_float fs file_group =
     (let (all_timestamps, all_temperatures) =
            read_file_group strptime to_float fs file_group ([], [])
      in sort_and_deduplicate all_timestamps all_temperatures)"

text \<open>
  The samples of one file, as pairs, and of a group: the concatenation over its files, in
  the order of the group.
\<close>

definition file_samples ::
  "(string \<Rightarrow> 't option) \<Rightarrow> (string \<Rightarrow> 'v option) \<Rightarrow> file_system \<Rightarrow> path \<Rightarrow> ('t \<times> 'v) list" where
  "file_samples strptime to_float fs csv_file =
     (let (timestamps, temps) =
            parse_logger_file strptime to_float fs csv_file (determine_skip_lines csv_file)
      in zip timestamps temps)"

definition group_samples ::
  "(string \<Rightarrow> 't option) \<Rightarrow> (string \<Rightarrow> 'v option) \<Rightarrow> file_system \<Rightarrow> path list \<Rightarrow>
   ('t \<times> 'v) list" where
  "group_samples strptime to_float fs file_group =
     concat (map (file_samples strptime to_float fs) file_group)"

text \<open>
  What the merger is to return, in the words of its description: of the samples sorted
  stably by timestamp, a sample stays when it is the first or its timestamp differs from
  that of the sample before it.
\<close>

fun collapse_equal :: "('t \<times> 'v) list \<Rightarrow> ('t \<times> 'v) list" where
  "collapse_equal [] = []"
| "collapse_equal [x] = [x]"
| "collapse_equal (x # y # xs) =
     (if fst x = fst y then collapse_equal (x # xs) else x # collapse_equal (y # xs))"

section \<open>plot_ground_temperature.py: the file grouper\<close>

text \<open>
  The logger id of a file, lines 28 to 38 of \<^verbatim>\<open>group_files_by_logger_id\<close>. A path that
  contains \<^verbatim>\<open>sangvor\<close> in any case takes the piece of the stem before the first underscore
  as it is; any other path replaces a piece that is empty or shorter than 3 characters
  by the name of the grandparent directory, when that name is longer than 3 characters.
\<close>

definition logger_id_of :: "path \<Rightarrow> string" where
  "logger_id_of csv_file =
     (if str_contains (lower (path_str csv_file)) ''sangvor''
      then hd (split_on CHR ''_'' (path_stem csv_file))
      else
        let logger_id = hd (split_on CHR ''_'' (path_stem csv_file));
            grandparent = path_name (path_parent (path_parent csv_file))
        in if logger_id = [] \<or> length logger_id < 3
           then (if grandparent \<noteq> [] \<and> length grandparent > 3 then grandparent else logger_id)
           else logger_id)"

text \<open>The test that skips a metadata file.\<close>

definition is_metadata_file :: "path \<Rightarrow> bool" where
  "is_metadata_file csv_file =
     (str_contains (path_str csv_file) ''metadata'' \<or> endswith (path_name csv_file) ''meta.csv'')"

fun group_loop :: "path list \<Rightarrow> (string \<rightharpoonup> path list) \<Rightarrow> (string \<rightharpoonup> path list)" where
  "group_loop [] grouped = grouped"
| "group_loop (csv_file # rest) grouped =
     (if is_metadata_file csv_file then group_loop rest grouped
      else
        let logger_id = logger_id_of csv_file in
        if logger_id \<noteq> []
        then group_loop rest
               (grouped(logger_id \<mapsto>
                  (case grouped logger_id of None \<Rightarrow> [] | Some files \<Rightarrow> files) @ [csv_file]))
        else group_loop rest grouped)"

definition group_files_by_logger_id :: "path list \<Rightarrow> (string \<rightharpoonup> path list)" where
  "group_files_by_logger_id csv_files =
     (let grouped = group_loop csv_files Map.empty
      in (\<lambda>logger_id. map_option sort (grouped logger_id)))"

section \<open>plot_ground_temperature.py: the metadata loader\<close>

text \<open>
  A row of \<^verbatim>\<open>csv.DictReader\<close> maps the column names of the header to the fields of the
  row; a column for which a short row has no field is mapped to \<^verbatim>\<open>None\<close>. A metadata
  table is the list of its rows, and \<open>None\<close> for a table is a path that does not exist.
\<close>

type_synonym csv_row = "string \<rightharpoonup> string option"

text \<open>
  The loop of \<^verbatim>\<open>load_metadata\<close>. \<^verbatim>\<open>row.get("ID", "")\<close> is \<^verbatim>\<open>None\<close> on a short row, where
  \<^verbatim>\<open>.strip()\<close> raises \<^verbatim>\<open>AttributeError\<close>: the \<^verbatim>\<open>except Exception\<close> around the loop then
  ends it, and the rows stored so far are returned.
\<close>

fun load_metadata_loop :: "csv_row list \<Rightarrow> (string \<rightharpoonup> csv_row) \<Rightarrow> (string \<rightharpoonup> csv_row)" where
  "load_metadata_loop [] metadata = metadata"
| "load_metadata_loop (row # rest) metadata =
     (case row ''ID'' of
        None \<Rightarrow> load_metadata_loop rest metadata
      | Some None \<Rightarrow> metadata
      | Some (Some field) \<Rightarrow>
          let logger_id = strip field in
          if logger_id \<noteq> [] then load_metadata_loop rest (metadata(logger_id \<mapsto> row))
          else load_metadata_loop rest metadata)"

definition load_metadata :: "csv_row list option \<Rightarrow> (string \<rightharpoonup> csv_row)" where
  "load_metadata metadata_path =
     (case metadata_path of
        None \<Rightarrow> Map.empty
      | Some rows \<Rightarrow> load_metadata_loop rows Map.empty)"

text \<open>
  The data directory as the metadata loaders see it: the tables of the \<^verbatim>\<open>*.csv\<close> files of
  its \<^verbatim>\<open>metadata\<close> directory, in the order \<^verbatim>\<open>glob\<close> yields them (\<open>None\<close> when there is no
  such directory), and the table of \<^verbatim>\<open>fan_loggers_meta.csv\<close> (\<open>None\<close> when there is no such
  file).
\<close>

record data_dir =
  metadata_dir :: "csv_row list list option"
  legacy_metadata :: "csv_row list option"

text \<open>\<^verbatim>\<open>load_all_metadata\<close>: \<^verbatim>\<open>dict.update\<close> is \<open>++\<close>.\<close>

definition load_all_metadata :: "data_dir \<Rightarrow> (string \<rightharpoonup> csv_row)" where
  "load_all_metadata data_root =
     (let all_metadata =
            (case metadata_dir data_root of
               None \<Rightarrow> Map.empty
             | Some tables \<Rightarrow>
                 foldl (\<lambda>all_metadata metadata_file. all_metadata ++ load_metadata (Some metadata_file))
                   Map.empty tables)
      in case legacy_metadata data_root of
           None \<Rightarrow> all_metadata
         | Some legacy \<Rightarrow> all_metadata ++ load_metadata (Some legacy))"

text \<open>The tables of a data directory in the order in which both scripts load them.\<close>

definition tables_in_load_order :: "data_dir \<Rightarrow> csv_row list list" where
  "tables_in_load_order data_root =
     (case metadata_dir data_root of None \<Rightarrow> [] | Some tables \<Rightarrow> tables) @
     (case legacy_metadata data_root of None \<Rightarrow> [] | Some legacy \<Rightarrow> [legacy])"

section \<open>interactive_map.py: the metadata loader\<close>

text \<open>
  A Python float: \<^verbatim>\<open>float\<close> returns a finite number, an infinity or a NaN. \<open>float_le\<close> is
  \<^verbatim>\<open><=\<close>, which is false whenever a NaN is compared.
\<close>

datatype pyfloat = Finite real | PosInf | NegInf | NaN

fun float_le :: "pyfloat \<Rightarrow> pyfloat \<Rightarrow> bool" where
  "float_le NaN _ = False"
| "float_le _ NaN = False"
| "float_le NegInf _ = True"
| "float_le _ PosInf = True"
| "float_le (Finite a) (Finite b) = (a \<le> b)"
| "float_le _ _ = False"

text \<open>
  The rows this loader returns hold strings, \<^verbatim>\<open>None\<close> and, under \<^verbatim>\<open>LAT\<close> and \<^verbatim>\<open>LON\<close>, floats.
\<close>

datatype cell = Str string | Num pyfloat | Null

type_synonym map_row = "string \<rightharpoonup> cell"

text \<open>\<^verbatim>\<open>dict(row)\<close>, as a row of cells.\<close>

definition cells_of :: "csv_row \<Rightarrow> map_row" where
  "cells_of row =
     (\<lambda>k. case row k of None \<Rightarrow> None | Some None \<Rightarrow> Some Null | Some (Some s) \<Rightarrow> Some (Str s))"

text \<open>
  \<^verbatim>\<open>row.get(k)\<close> taken as a condition: true for a field that is present and not empty.
  \<open>field_or\<close> is \<^verbatim>\<open>row.get(k) or rest\<close>.
\<close>

definition truthy :: "csv_row \<Rightarrow> string \<Rightarrow> bool" where
  "truthy row k = (case row k of Some (Some s) \<Rightarrow> s \<noteq> [] | _ \<Rightarrow> False)"

definition field_or :: "csv_row \<Rightarrow> string \<Rightarrow> string \<Rightarrow> string" where
  "field_or row k rest = (case row k of Some (Some s) \<Rightarrow> if s \<noteq> [] then s else rest | _ \<Rightarrow> rest)"

text \<open>
  The loop of \<^verbatim>\<open>load_metadata\<close>, with the list it appends to and the warnings it logs (each
  with the logger id and the two coordinate fields of its message). The first
  \<^verbatim>\<open>ValueError\<close> of the two \<^verbatim>\<open>float\<close> calls ends the \<^verbatim>\<open>try\<close> block.
\<close>

fun load_metadata_map_loop ::
  "(string \<Rightarrow> pyfloat option) \<Rightarrow> csv_row list \<Rightarrow>
   map_row list \<times> (string \<times> string \<times> string) list \<Rightarrow>
   map_row list \<times> (string \<times> string \<times> string) list" where
  "load_metadata_map_loop to_float [] (metadata, warnings) = (metadata, warnings)"
| "load_metadata_map_loop to_float (row0 # rest) (metadata, warnings) =
     (let (logger_id, row) =
            (if truthy row0 ''BLE-ID/Geoprecision''
             then (strip (field_or row0 ''BLE-ID/Geoprecision'' []),
                   if truthy row0 ''ID'' then row0(''WP_ID'' := row0 ''ID'') else row0)
             else if truthy row0 ''ID'' then (strip (field_or row0 ''ID'' []), row0)
             else ([], row0));
          lat_val = field_or row ''LAT'' (field_or row ''Y'' []);
          lon_val = field_or row ''LON'' (field_or row ''X'' [])
      in if lat_val \<noteq> [] \<and> lon_val \<noteq> [] \<and> logger_id \<noteq> [] \<and> logger_id \<noteq> ''-''
         then
           (case to_float lat_val of
              None \<Rightarrow>
                load_metadata_map_loop to_float rest
                  (metadata, warnings @ [(logger_id, lat_val, lon_val)])
            | Some lat \<Rightarrow>
                (case to_float lon_val of
                   None \<Rightarrow>
                     load_metadata_map_loop to_float rest
                       (metadata, warnings @ [(logger_id, lat_val, lon_val)])
                 | Some lon \<Rightarrow>
                     if float_le (Finite (- 90)) lat \<and> float_le lat (Finite 90) \<and>
                        float_le (Finite (- 180)) lon \<and> float_le lon (Finite 180)
                     then
                       let normalized_row =
                             (cells_of row)(''ID'' \<mapsto> Str logger_id, ''LAT'' \<mapsto> Num lat,
                                            ''LON'' \<mapsto> Num lon);
                           normalized_row =
                             (if row ''Altitude'' \<noteq> None \<and> \<not> truthy row ''ELE''
                              then normalized_row(''ELE'' := cells_of row ''Altitude'')
                              else normalized_row)
                       in load_metadata_map_loop to_float rest
                            (metadata @ [normalized_row], warnings)
                     else load_metadata_map_loop to_float rest (metadata, warnings)))
         else load_metadata_map_loop to_float rest (metadata, warnings))"

definition load_metadata_map ::
  "(string \<Rightarrow> pyfloat option) \<Rightarrow> csv_row list option \<Rightarrow>
   map_row list \<times> (string \<times> string \<times> string) list" where
  "load_metadata_map to_float metadata_path =
     (case metadata_path of
        None \<Rightarrow> ([], [])
      | Some rows \<Rightarrow> load_metadata_map_loop to_float rows ([], []))"

text \<open>\<^verbatim>\<open>load_all_metadata\<close> of this script: \<^verbatim>\<open>list.extend\<close> is \<open>@\<close>.\<close>

definition load_all_metadata_map ::
  "(string \<Rightarrow> pyfloat option) \<Rightarrow> data_dir \<Rightarrow> map_row list" where
  "load_all_metadata_map to_float data_root =
     (let all_metadata =
            (case metadata_dir data_root of
               None \<Rightarrow> []
             | Some tables \<Rightarrow>
                 foldl (\<lambda>all_metadata metadata_file.
                          all_metadata @ fst (load_metadata_map to_float (Some metadata_file)))
                   [] tables)
      in case legacy_metadata data_root of
           None \<Rightarrow> all_metadata
         | Some legacy \<Rightarrow> all_metadata @ fst (load_metadata_map to_float (Some legacy)))"

text \<open>
  What the loaders are said to do with one row, in the words of their description. The
  identifier of a row is its \<^verbatim>\<open>BLE-ID/Geoprecision\<close> field when that is present and not
  empty, and its \<^verbatim>\<open>ID\<close> field otherwise, stripped; the latitude field is \<^verbatim>\<open>LAT\<close>, then \<^verbatim>\<open>Y\<close>,
  the longitude field \<^verbatim>\<open>LON\<close>, then \<^verbatim>\<open>X\<close>.
\<close>

definition resolved_id :: "csv_row \<Rightarrow> string" where
  "resolved_id row =
     (if truthy row ''BLE-ID/Geoprecision'' then strip (field_or row ''BLE-ID/Geoprecision'' [])
      else if truthy row ''ID'' then strip (field_or row ''ID'' [])
      else [])"

definition lat_field :: "csv_row \<Rightarrow> string" where
  "lat_field row = field_or row ''LAT'' (field_or row ''Y'' [])"

definition lon_field :: "csv_row \<Rightarrow> string" where
  "lon_field row = field_or row ''LON'' (field_or row ''X'' [])"

definition in_range :: "pyfloat \<Rightarrow> pyfloat \<Rightarrow> bool" where
  "in_range lat lon =
     (float_le (Finite (- 90)) lat \<and> float_le lat (Finite 90) \<and>
      float_le (Finite (- 180)) lon \<and> float_le lon (Finite 180))"

text \<open>
  A row is retained when it has an identifier other than \<^verbatim>\<open>-\<close> and two coordinate fields
  that convert to floats in range. A warning is logged for a row that has an identifier
  and two coordinate fields of which one does not convert.
\<close>

definition usable_fields :: "csv_row \<Rightarrow> bool" where
  "usable_fields row =
     (lat_field row \<noteq> [] \<and> lon_field row \<noteq> [] \<and> resolved_id row \<noteq> [] \<and> resolved_id row \<noteq> ''-'')"

definition retained :: "(string \<Rightarrow> pyfloat option) \<Rightarrow> csv_row \<Rightarrow> bool" where
  "retained to_float row =
     (usable_fields row \<and>
      (case to_float (lat_field row) of
         None \<Rightarrow> False
       | Some lat \<Rightarrow>
           (case to_float (lon_field row) of None \<Rightarrow> False | Some lon \<Rightarrow> in_range lat lon)))"

definition warned :: "(string \<Rightarrow> pyfloat option) \<Rightarrow> csv_row \<Rightarrow> bool" where
  "warned to_float row =
     (usable_fields row \<and>
      (to_float (lat_field row) = None \<or> to_float (lon_field row) = None))"

text \<open>
  The row as \<^verbatim>\<open>load_metadata\<close> of \<^verbatim>\<open>interactive_map.py\<close> stores it: with \<^verbatim>\<open>WP_ID\<close> set to the
  \<^verbatim>\<open>ID\<close> field when the identifier came from \<^verbatim>\<open>BLE-ID/Geoprecision\<close> and there is an \<^verbatim>\<open>ID\<close>
  field, with the identifier under \<^verbatim>\<open>ID\<close>, the floats under \<^verbatim>\<open>LAT\<close> and \<^verbatim>\<open>LON\<close>, and with \<^verbatim>\<open>ELE\<close>
  taken from \<^verbatim>\<open>Altitude\<close> when there is such a column and no \<^verbatim>\<open>ELE\<close> field.
\<close>

definition wp_row :: "csv_row \<Rightarrow> csv_row" where
  "wp_row row =
     (if truthy row ''BLE-ID/Geoprecision'' \<and> truthy row ''ID''
      then row(''WP_ID'' := row ''ID'') else row)"

definition normalized_row :: "(string \<Rightarrow> pyfloat option) \<Rightarrow> csv_row \<Rightarrow> map_row" where
  "normalized_row to_float row =
     (let normalized =
            (cells_of (wp_row row))(''ID'' \<mapsto> Str (resolved_id row),
                            ''LAT'' \<mapsto> Num (the (to_float (lat_field row))),
                            ''LON'' \<mapsto> Num (the (to_float (lon_field row))))
      in if row ''Altitude'' \<noteq> None \<and> \<not> truthy row ''ELE''
         then normalized(''ELE'' := cells_of row ''Altitude'')
         else normalized)"

text \<open>The key under which \<^verbatim>\<open>load_metadata\<close> of \<^verbatim>\<open>plot_ground_temperature.py\<close> stores a row.\<close>

definition plot_id :: "csv_row \<Rightarrow> string" where
  "plot_id row = (case row ''ID'' of Some (Some field) \<Rightarrow> strip field | _ \<Rightarrow> [])"

section \<open>apply_time_offset_sangvor.py\<close>

datatype error = ValueError | OverflowError

text \<open>
  A \<^verbatim>\<open>timedelta\<close> built from whole days, hours, minutes and seconds is its number of
  seconds. The constructor raises \<^verbatim>\<open>OverflowError\<close> when the normalised number of days
  exceeds 999999999 in magnitude.
\<close>

type_synonym timedelta = int

definition mk_timedelta :: "int \<Rightarrow> int \<Rightarrow> int \<Rightarrow> int \<Rightarrow> error + timedelta" where
  "mk_timedelta days hours minutes seconds =
     (let total = days * 86400 + hours * 3600 + minutes * 60 + seconds
      in if \<bar>total div 86400\<bar> > 999999999 then Inl OverflowError else Inr total)"

definition is_digit :: "char \<Rightarrow> bool" where
  "is_digit c = (c \<in> set ''0123456789'')"

definition digit_val :: "char \<Rightarrow> nat" where
  "digit_val c =
     (case map_of (zip ''0123456789'' [0, 1, 2, 3, 4, 5, 6, 7, 8, 9]) c of
        Some n \<Rightarrow> n | None \<Rightarrow> 0)"

definition int_of_digits :: "string \<Rightarrow> nat" where
  "int_of_digits s = foldl (\<lambda>n c. 10 * n + digit_val c) 0 s"

text \<open>
  One optional group \<^verbatim>\<open>(?:(\d+)unit)?\<close> of the pattern, matched at the start of \<open>s\<close>: the
  digits it captures, if it matches, and the rest of the string. \<^verbatim>\<open>\d+\<close> takes every
  digit there is, and the group matches when the unit follows; when it does not, the
  group matches nothing and consumes nothing.
\<close>

definition match_unit :: "string \<Rightarrow> string \<Rightarrow> string option \<times> string" where
  "match_unit unit s =
     (let digits = takeWhile is_digit s; rest = dropWhile is_digit s
      in if digits \<noteq> [] \<and> startswith rest unit
         then (Some digits, drop (length unit) rest)
         else (None, s))"

text \<open>
  \<^verbatim>\<open>re.match(pattern, s)\<close> for the pattern of \<^verbatim>\<open>parse_offset\<close>: four optional groups with
  \<^verbatim>\<open>\s*\<close> between them, matched at the start of \<open>s\<close> and not anchored at its end. The result
  is the four captured groups; \<open>None\<close> would be no match.
\<close>

definition re_match_offset ::
  "string \<Rightarrow> (string option \<times> string option \<times> string option \<times> string option) option" where
  "re_match_offset s =
     (let (days, s1) = match_unit ''d'' s;
          (hours, s2) = match_unit ''h'' (dropWhile is_space s1);
          (minutes, s3) = match_unit ''min'' (dropWhile is_space s2);
          (seconds, s4) = match_unit ''sec'' (dropWhile is_space s3)
      in Some (days, hours, minutes, seconds))"

text \<open>\<^verbatim>\<open>int(x) if x else 0\<close> for a captured group.\<close>

definition group_int :: "string option \<Rightarrow> int" where
  "group_int x = (case x of None \<Rightarrow> 0 | Some digits \<Rightarrow> if digits = [] then 0 else int (int_of_digits digits))"

text \<open>\<^verbatim>\<open>parse_offset\<close>\<close>

definition parse_offset :: "string \<Rightarrow> error + timedelta" where
  "parse_offset offset_str =
     (case re_match_offset (filter (\<lambda>c. c \<noteq> CHR '' '') offset_str) of
        None \<Rightarrow> Inl ValueError
      | Some (days, hours, minutes, seconds) \<Rightarrow>
          mk_timedelta (group_int days) (group_int hours) (group_int minutes) (group_int seconds))"

definition SKIP_LINES :: int where
  "SKIP_LINES = 22"

text \<open>\<^verbatim>\<open>line.rstrip("\n")\<close>\<close>

definition rstrip_newline :: "string \<Rightarrow> string" where
  "rstrip_newline line = rev (dropWhile (\<lambda>c. c = CHR 0x0A) (rev line))"

text \<open>
  The loop of \<^verbatim>\<open>process_file\<close> over \<^verbatim>\<open>enumerate(infile, 1)\<close>: the list of the strings it
  writes, one for each line read. The library calls are parameters: \<open>strptime\<close> as above,
  \<open>strftime\<close> for \<^verbatim>\<open>dt.strftime(DATE_FORMAT)\<close>, and \<open>add\<close> for \<^verbatim>\<open>dt + offset\<close>, which is
  \<open>None\<close> when it raises \<^verbatim>\<open>OverflowError\<close>. Every exception of the \<^verbatim>\<open>try\<close> block writes the
  line as it was read.
\<close>

fun process_loop ::
  "(string \<Rightarrow> 't option) \<Rightarrow> ('t \<Rightarrow> string) \<Rightarrow> ('t \<Rightarrow> 'd \<Rightarrow> 't option) \<Rightarrow> 'd \<Rightarrow>
   (nat \<times> string) list \<Rightarrow> string list" where
  "process_loop strptime strftime add offset [] = []"
| "process_loop strptime strftime add offset ((i, raw) # rest) =
     (if int i \<le> SKIP_LINES then raw # process_loop strptime strftime add offset rest
      else
        let line = rstrip_newline raw in
        if line = [] \<or> CHR '';'' \<notin> set line
        then (line @ [CHR 0x0A]) # process_loop strptime strftime add offset rest
        else
          let parts = split_on CHR '';'' line in
          if length parts < 2
          then (line @ [CHR 0x0A]) # process_loop strptime strftime add offset rest
          else
            (case strptime (strip (parts ! 0)) of
               None \<Rightarrow> (line @ [CHR 0x0A]) # process_loop strptime strftime add offset rest
             | Some dt \<Rightarrow>
                 (case add dt offset of
                    None \<Rightarrow> (line @ [CHR 0x0A]) # process_loop strptime strftime add offset rest
                  | Some dt_shifted \<Rightarrow>
                      let new_line = strftime dt_shifted @ '';'' @ join '';'' (tl parts)
                      in (new_line @ [CHR 0x0A]) #
                         process_loop strptime strftime add offset rest)))"

definition process_file ::
  "(string \<Rightarrow> 't option) \<Rightarrow> ('t \<Rightarrow> string) \<Rightarrow> ('t \<Rightarrow> 'd \<Rightarrow> 't option) \<Rightarrow>
   string list \<Rightarrow> 'd \<Rightarrow> string list" where
  "process_file strptime strftime add infile offset =
     process_loop strptime strftime add offset (enumerate1 infile)"

text \<open>
  What the rewriter is to write for one data line, in the words of its description. The
  line is taken without its trailing newline. When it has a semicolon, its first field
  converts to a timestamp and the shifted timestamp exists, the line written is the
  shifted timestamp, formatted, followed by the rest of the line from its first
  semicolon on. Otherwise the line is written as it is. A newline ends every line
  written.
\<close>

definition shifted_line ::
  "(string \<Rightarrow> 't option) \<Rightarrow> ('t \<Rightarrow> string) \<Rightarrow> ('t \<Rightarrow> 'd \<Rightarrow> 't option) \<Rightarrow> 'd \<Rightarrow>
   string \<Rightarrow> string" where
  "shifted_line strptime strftime add offset raw =
     (let line = rstrip_newline raw in
      if CHR '';'' \<in> set line
      then
        (case strptime (strip (takeWhile (\<lambda>c. c \<noteq> CHR '';'') line)) of
           None \<Rightarrow> line @ [CHR 0x0A]
         | Some dt \<Rightarrow>
             (case add dt offset of
                None \<Rightarrow> line @ [CHR 0x0A]
              | Some dt_shifted \<Rightarrow>
                  strftime dt_shifted @ dropWhile (\<lambda>c. c \<noteq> CHR '';'') line @ [CHR 0x0A]))
      else line @ [CHR 0x0A])"

section \<open>The library calls on concrete strings\<close>

text \<open>
  A model of the three \<^verbatim>\<open>datetime\<close> operations and of \<^verbatim>\<open>float\<close>, to run the functions above
  on concrete files. A naive \<^verbatim>\<open>datetime\<close> without microseconds is the number of seconds
  from the midnight before 1 January of year 1: 86400 times its proleptic Gregorian
  ordinal plus the seconds of its day. The order of these numbers is the order of the
  datetimes.
\<close>

definition digit_char :: "nat \<Rightarrow> char" where
  "digit_char n = ''0123456789'' ! (n mod 10)"

definition pad2 :: "nat \<Rightarrow> string" where
  "pad2 n = [digit_char (n div 10), digit_char n]"

definition pad4 :: "nat \<Rightarrow> string" where
  "pad4 n = [digit_char (n div 1000), digit_char (n div 100), digit_char (n div 10), digit_char n]"

fun partition_at :: "char \<Rightarrow> string \<Rightarrow> (string \<times> string) option" where
  "partition_at d [] = None"
| "partition_at d (c # cs) =
     (if c = d then Some ([], cs)
      else (case partition_at d cs of None \<Rightarrow> None | Some (a, b) \<Rightarrow> Some (c # a, b)))"

definition day_field :: "string \<Rightarrow> nat option" where
  "day_field s =
     (case s of
        [a] \<Rightarrow> if a \<in> set ''123456789'' then Some (digit_val a) else None
      | [a, b] \<Rightarrow>
          if (a = CHR ''3'' \<and> b \<in> set ''01'') \<or> (a \<in> set ''12'' \<and> is_digit b) \<or>
             (a = CHR ''0'' \<and> b \<in> set ''123456789'')
          then Some (10 * digit_val a + digit_val b)
          else if a = CHR '' '' \<and> b \<in> set ''123456789'' then Some (digit_val b)
          else None
      | _ \<Rightarrow> None)"

definition month_field :: "string \<Rightarrow> nat option" where
  "month_field s =
     (case s of
        [a] \<Rightarrow> if a \<in> set ''123456789'' then Some (digit_val a) else None
      | [a, b] \<Rightarrow>
          if (a = CHR ''1'' \<and> b \<in> set ''012'') \<or> (a = CHR ''0'' \<and> b \<in> set ''123456789'')
          then Some (10 * digit_val a + digit_val b) else None
      | _ \<Rightarrow> None)"

definition year_field :: "string \<Rightarrow> nat option" where
  "year_field s = (if length s = 4 \<and> list_all is_digit s then Some (int_of_digits s) else None)"

definition hour_field :: "string \<Rightarrow> nat option" where
  "hour_field s =
     (case s of
        [a] \<Rightarrow> if is_digit a then Some (digit_val a) else None
      | [a, b] \<Rightarrow>
          if (a = CHR ''2'' \<and> b \<in> set ''0123'') \<or> (a \<in> set ''01'' \<and> is_digit b)
          then Some (10 * digit_val a + digit_val b) else None
      | _ \<Rightarrow> None)"

definition minute_field :: "string \<Rightarrow> nat option" where
  "minute_field s =
     (case s of
        [a] \<Rightarrow> if is_digit a then Some (digit_val a) else None
      | [a, b] \<Rightarrow>
          if a \<in> set ''012345'' \<and> is_digit b
          then Some (10 * digit_val a + digit_val b) else None
      | _ \<Rightarrow> None)"

definition second_field :: "string \<Rightarrow> nat option" where
  "second_field s =
     (case s of
        [a] \<Rightarrow> if is_digit a then Some (digit_val a) else None
      | [a, b] \<Rightarrow>
          if (a = CHR ''6'' \<and> b \<in> set ''01'') \<or> (a \<in> set ''012345'' \<and> is_digit b)
          then Some (10 * digit_val a + digit_val b) else None
      | _ \<Rightarrow> None)"

definition is_leap :: "nat \<Rightarrow> bool" where
  "is_leap y = (y mod 4 = 0 \<and> (y mod 100 \<noteq> 0 \<or> y mod 400 = 0))"

definition days_in_month :: "nat \<Rightarrow> nat \<Rightarrow> nat" where
  "days_in_month y m =
     (if m = 2 \<and> is_leap y then 29
      else [0, 31, 28, 31, 30, 31, 30, 31, 31, 30, 31, 30, 31] ! m)"

definition days_before_year :: "nat \<Rightarrow> nat" where
  "days_before_year y = (let k = y - 1 in k * 365 + k div 4 - k div 100 + k div 400)"

definition days_before_month :: "nat \<Rightarrow> nat \<Rightarrow> nat" where
  "days_before_month y m =
     [0, 0, 31, 59, 90, 120, 151, 181, 212, 243, 273, 304, 334] ! m +
     (if m > 2 \<and> is_leap y then 1 else 0)"

definition ymd2ord :: "nat \<Rightarrow> nat \<Rightarrow> nat \<Rightarrow> nat" where
  "ymd2ord y m d = days_before_year y + days_before_month y m + d"

definition ord2ymd :: "nat \<Rightarrow> nat \<times> nat \<times> nat" where
  "ord2ymd ordinal =
     (let n = ordinal - 1;
          n400 = n div 146097; n = n mod 146097;
          n100 = n div 36524; n = n mod 36524;
          n4 = n div 1461; n = n mod 1461;
          n1 = n div 365; n = n mod 365;
          year = n400 * 400 + 1 + n100 * 100 + n4 * 4 + n1
      in if n1 = 4 \<or> n100 = 4 then (year - 1, 12, 31)
         else
           let leapyear = (n1 = 3 \<and> (n4 \<noteq> 24 \<or> n100 = 3));
               month = (n + 50) div 32;
               preceding = [0, 0, 31, 59, 90, 120, 151, 181, 212, 243, 273, 304, 334] ! month +
                           (if month > 2 \<and> leapyear then 1 else 0)
           in if preceding > n
              then
                let month' = month - 1;
                    preceding' = preceding -
                      ([0, 31, 28, 31, 30, 31, 30, 31, 31, 30, 31, 30, 31] ! month' +
                       (if month' = 2 \<and> leapyear then 1 else 0))
                in (year, month', n - preceding' + 1)
              else (year, month, n - preceding + 1))"

type_synonym datetime = int

definition mk_datetime :: "nat \<Rightarrow> nat \<Rightarrow> nat \<Rightarrow> nat \<Rightarrow> nat \<Rightarrow> nat \<Rightarrow> datetime option" where
  "mk_datetime year month day hour minute second =
     (if 1 \<le> year \<and> year \<le> 9999 \<and> 1 \<le> month \<and> month \<le> 12 \<and>
         1 \<le> day \<and> day \<le> days_in_month year month \<and> hour \<le> 23 \<and> minute \<le> 59 \<and> second \<le> 59
      then Some (int (ymd2ord year month day) * 86400 + int hour * 3600 + int minute * 60 + int second)
      else None)"

definition py_strptime :: "string \<Rightarrow> datetime option" where
  "py_strptime s =
     (case partition_at CHR ''.'' s of
        None \<Rightarrow> None
      | Some (ds, r1) \<Rightarrow>
          (case partition_at CHR ''.'' r1 of
             None \<Rightarrow> None
           | Some (ms, r2) \<Rightarrow>
               let ys = take 4 r2; r3 = drop 4 r2 in
               if r3 = [] \<or> \<not> is_space (hd r3) then None
               else
                 (case partition_at CHR '':'' (dropWhile is_space r3) of
                    None \<Rightarrow> None
                  | Some (hs, r4) \<Rightarrow>
                      (case partition_at CHR '':'' r4 of
                         None \<Rightarrow> None
                       | Some (mins, ss) \<Rightarrow>
                           (case (day_field ds, month_field ms, year_field ys,
                                  hour_field hs, minute_field mins, second_field ss) of
                              (Some d, Some m, Some y, Some h, Some mi, Some se) \<Rightarrow>
                                mk_datetime y m d h mi se
                            | _ \<Rightarrow> None)))))"

definition py_strftime :: "datetime \<Rightarrow> string" where
  "py_strftime t =
     (let ordinal = nat (t div 86400); sod = nat (t mod 86400);
          (y, m, d) = ord2ymd ordinal
      in pad2 d @ ''.'' @ pad2 m @ ''.'' @ pad4 y @ '' '' @
         pad2 (sod div 3600) @ '':'' @ pad2 (sod mod 3600 div 60) @ '':'' @ pad2 (sod mod 60))"

definition datetime_add :: "datetime \<Rightarrow> int \<Rightarrow> datetime option" where
  "datetime_add dt offset =
     (let r = dt + offset in if 0 < r div 86400 \<and> r div 86400 \<le> 3652059 then Some r else None)"

text \<open>
  \<^verbatim>\<open>float\<close> on a plain decimal literal, an optional sign, digits and an optional fraction,
  whose value is returned as it is written. \<^verbatim>\<open>float\<close> accepts more than this (exponents,
  \<^verbatim>\<open>inf\<close>, \<^verbatim>\<open>nan\<close>, underscores) and rounds to binary64; the examples use literals that
  binary64 holds exactly and strings that \<^verbatim>\<open>float\<close> rejects.
\<close>

definition float_of_decimal :: "string \<Rightarrow> pyfloat option" where
  "float_of_decimal s =
     (let (negative, body) =
            (case s of
               [] \<Rightarrow> (False, s)
             | c # cs \<Rightarrow>
                 if c = CHR ''-'' then (True, cs) else if c = CHR ''+'' then (False, cs)
                 else (False, s));
          whole = takeWhile is_digit body;
          rest = dropWhile is_digit body;
          fraction =
            (case rest of
               [] \<Rightarrow> Some []
             | c # cs \<Rightarrow> if c = CHR ''.'' \<and> list_all is_digit cs then Some cs else None)
      in case fraction of
           None \<Rightarrow> None
         | Some digits \<Rightarrow>
             if whole = [] \<and> digits = [] then None
             else
               let v = real (int_of_digits whole) +
                       real (int_of_digits digits) / 10 ^ length digits
               in Some (Finite (if negative then - v else v)))"

section \<open>Example files\<close>

text \<open>
  A sangvor file of one header line and four data lines: a valid sample, a line whose
  temperature does not convert, a line whose timestamp does not convert, and a valid
  sample with blanks around its fields and a third field.
\<close>

definition example_sangvor_fs :: file_system where
  "example_sangvor_fs =
     \<lparr>text_lines = (\<lambda>p. [''Date;Temp'', ''01.01.2020 00:00:00;5.0'', ''02.01.2020 00:00:00;n/a'',
                          ''today;4.0'', '' 03.01.2020 00:00:00 ; 6.5 ;x'']),
      csv_rows = (\<lambda>p. [])\<rparr>"

text \<open>
  Two fanmountains files of one logger, each of twelve header rows and two samples; the
  second file starts at the timestamp at which the first ends.
\<close>

definition example_header_rows :: "string list list" where
  "example_header_rows =
     [[''h''], [''h''], [''h''], [''h''], [''h''], [''h''],
      [''h''], [''h''], [''h''], [''h''], [''h''], [''h'']]"

definition example_fan_fs :: file_system where
  "example_fan_fs =
     \<lparr>text_lines = (\<lambda>p. []),
      csv_rows = (\<lambda>p. example_header_rows @
        (if p = [''A538D8_1.csv'']
         then [[''1'', ''01.01.2020 00:00:00'', ''5.0''], [''2'', ''01.01.2020 01:00:00'', ''5.5'']]
         else [[''1'', ''01.01.2020 01:00:00'', ''6.0''], [''2'', ''01.01.2020 02:00:00'', ''6.5'']]))\<rparr>"

text \<open>
  A fanmountains file whose first data row has a timestamp that converts and a
  temperature, \<^verbatim>\<open>abc\<close>, that does not; its second data row is valid.
\<close>

definition example_bad_temperature_fs :: file_system where
  "example_bad_temperature_fs =
     \<lparr>text_lines = (\<lambda>p. []),
      csv_rows = (\<lambda>p. example_header_rows @
         [[''1'', ''01.01.2020 00:00:00'', ''abc''], [''2'', ''01.01.2020 01:00:00'', ''5.5'']])\<rparr>"

text \<open>
  Metadata rows: a sangvor row with both identifiers, a row whose latitude is out of
  range, a row whose identifier is \<^verbatim>\<open>-\<close>, a row whose latitude is not a number, and two rows
  of the same logger that differ in their other fields. The example data directory has
  the older of these two in the first table of its metadata directory, the newer in the
  second, and the sangvor row in the legacy file.
\<close>

definition example_row_x1 :: csv_row where
  "example_row_x1 =
     [''BLE-ID/Geoprecision'' \<mapsto> Some ''X1'', ''ID'' \<mapsto> Some ''WP5'',
      ''LAT'' \<mapsto> Some ''39.0'', ''LON'' \<mapsto> Some ''70.5'']"

definition example_row_lat91 :: csv_row where
  "example_row_lat91 = [''ID'' \<mapsto> Some ''A1'', ''LAT'' \<mapsto> Some ''91'', ''LON'' \<mapsto> Some ''68.0'']"

definition example_row_dash :: csv_row where
  "example_row_dash = [''ID'' \<mapsto> Some ''-'', ''LAT'' \<mapsto> Some ''39.0'', ''LON'' \<mapsto> Some ''68.0'']"

definition example_row_unparsable :: csv_row where
  "example_row_unparsable = [''ID'' \<mapsto> Some ''A2'', ''LAT'' \<mapsto> Some ''n/a'', ''LON'' \<mapsto> Some ''68.0'']"

definition example_row_old :: csv_row where
  "example_row_old =
     [''ID'' \<mapsto> Some ''A538D8'', ''LAT'' \<mapsto> Some ''39.0'', ''LON'' \<mapsto> Some ''68.0'',
      ''Notes'' \<mapsto> Some ''old'', ''surface'' \<mapsto> Some ''gravel'']"

definition example_row_new :: csv_row where
  "example_row_new =
     [''ID'' \<mapsto> Some ''A538D8'', ''LAT'' \<mapsto> Some ''39.5'', ''LON'' \<mapsto> Some ''68.5'',
      ''Notes'' \<mapsto> Some ''new'']"

definition example_data_dir :: data_dir where
  "example_data_dir =
     \<lparr>metadata_dir = Some [[example_row_old], [example_row_new]],
      legacy_metadata = Some [example_row_x1]\<rparr>"

text \<open>
  A sangvor file for the offset rewriter: 22 header lines, of which the third looks like
  a data line and the fourth is empty, then a data line, a line whose first field is no
  timestamp and which is the only one without a newline, and a line without a semicolon.
\<close>

definition example_header_lines :: "string list" where
  "example_header_lines =
     [''h1'' @ [CHR 0x0A], ''h2'' @ [CHR 0x0A], ''01.01.2020 00:00:00;1.0'' @ [CHR 0x0A],
      [CHR 0x0A], ''h5'' @ [CHR 0x0A], ''h6'' @ [CHR 0x0A], ''h7'' @ [CHR 0x0A],
      ''h8'' @ [CHR 0x0A], ''h9'' @ [CHR 0x0A], ''h10'' @ [CHR 0x0A], ''h11'' @ [CHR 0x0A],
      ''h12'' @ [CHR 0x0A], ''h13'' @ [CHR 0x0A], ''h14'' @ [CHR 0x0A], ''h15'' @ [CHR 0x0A],
      ''h16'' @ [CHR 0x0A], ''h17'' @ [CHR 0x0A], ''h18'' @ [CHR 0x0A], ''h19'' @ [CHR 0x0A],
      ''h20'' @ [CHR 0x0A], ''h21'' @ [CHR 0x0A], ''Date;Temp'' @ [CHR 0x0A]]"

definition example_offset_file :: "string list" where
  "example_offset_file =
     example_header_lines @
     [''01.01.2020 00:00:00;5.0'' @ [CHR 0x0A], ''n/a;1;2'', ''end'' @ [CHR 0x0A]]"

text \<open>Files for the grouper: two files of one logger, a metadata file, a file in a
  \<^verbatim>\<open>logger/raw\<close> layout whose name gives a candidate of two characters.\<close>

definition example_csv_files :: "path list" where
  "example_csv_files =
     [[''data'', ''fan'', ''A538D8_2.csv''], [''data'', ''metadata'', ''sites.csv''],
      [''data'', ''fan'', ''A538D8_1.csv''], [''LOGGER7'', ''raw'', ''ab_1.csv'']]"

section \<open>Evaluation on concrete inputs\<close>

lemmas string_defs = is_space_def lstrip_def rstrip_def strip_def lower_def lower_char_def
  upper_def upper_char_def startswith_def endswith_def enumerate1_def

lemmas path_defs = is_anchor_def has_anchor_def path_str_def path_name_def path_parent_def
  path_stem_def

lemmas library_defs = py_strptime_def mk_datetime_def day_field_def month_field_def
  year_field_def hour_field_def minute_field_def second_field_def is_digit_def digit_val_def
  int_of_digits_def ymd2ord_def days_before_year_def days_before_month_def days_in_month_def
  is_leap_def py_strftime_def ord2ymd_def pad2_def pad4_def digit_char_def datetime_add_def
  float_of_decimal_def

section \<open>Properties of the sangvor parser\<close>

lemma parse_sangvor_loop_samples:
  "parse_sangvor_loop strptime to_float skip_lines rows (timestamps, temperatures) =
     (timestamps @ map fst (List.map_filter (sangvor_sample strptime to_float)
                     (map snd (filter (\<lambda>(row_num, x). \<not> int row_num \<le> skip_lines) rows))),
      temperatures @ map snd (List.map_filter (sangvor_sample strptime to_float)
                     (map snd (filter (\<lambda>(row_num, x). \<not> int row_num \<le> skip_lines) rows))))"
proof (induction rows arbitrary: timestamps temperatures)
  case Nil
  show ?case by simp
next
  case (Cons r rows)
  obtain row_num raw where r: "r = (row_num, raw)" by (cases r)
  show ?case
    unfolding r
    by (simp add: Cons.IH sangvor_sample_def Let_def split: option.splits)
qed

text \<open>
  C10. For every file and every header-skip count, the two lists the sangvor parser returns
  have the same length, and paired index by index they are exactly the samples of the data
  lines on which both the timestamp and the temperature convert, in file order: a line on
  which only one of the two converts contributes to neither list.
\<close>

theorem parse_sangvor_file_paired:
  "length (fst (parse_sangvor_file strptime to_float fs path skip_lines)) =
     length (snd (parse_sangvor_file strptime to_float fs path skip_lines)) \<and>
   zip (fst (parse_sangvor_file strptime to_float fs path skip_lines))
       (snd (parse_sangvor_file strptime to_float fs path skip_lines)) =
     List.map_filter (sangvor_sample strptime to_float)
       (data_lines skip_lines (text_lines fs path))"
proof -
  define samples where
    "samples = List.map_filter (sangvor_sample strptime to_float)
                 (data_lines skip_lines (text_lines fs path))"
  have p: "parse_sangvor_file strptime to_float fs path skip_lines =
             (map fst samples, map snd samples)"
    by (simp add: parse_sangvor_file_def parse_sangvor_loop_samples data_lines_def samples_def)
  have "length (map fst samples) = length (map snd samples)" by simp
  moreover have "zip (map fst samples) (map snd samples) = samples"
    by (rule zip_map_fst_snd)
  ultimately show ?thesis
    unfolding p samples_def [symmetric] by simp
qed

text \<open>
  On the example file with a header skip of 1, the two lines of which one field does not
  convert are absent from both lists.
\<close>

theorem parse_sangvor_file_paired_witness:
  "parse_sangvor_file py_strptime float_of_decimal example_sangvor_fs [''sangvor'', ''a.csv''] 1 =
     ([63713520000, 63713692800], [Finite 5, Finite 6.5]) \<and>
   List.map_filter (sangvor_sample py_strptime float_of_decimal)
     (data_lines 1 (text_lines example_sangvor_fs [''sangvor'', ''a.csv''])) =
     [(63713520000, Finite 5), (63713692800, Finite 6.5)]"
proof -
  have e: "parse_sangvor_file py_strptime float_of_decimal example_sangvor_fs
             [''sangvor'', ''a.csv''] 1 =
           ([63713520000, 63713692800], [Finite 5, Finite 6.5])"
    by (simp add: parse_sangvor_file_def example_sangvor_fs_def string_defs library_defs Let_def)
  show ?thesis
    using parse_sangvor_file_paired
            [of py_strptime float_of_decimal example_sangvor_fs "[''sangvor'', ''a.csv'']" 1]
    by (simp add: e)
qed

section \<open>Properties of the series merger\<close>


lemma collapse_equal_Cons: "collapse_equal (x # xs) = x # tl (collapse_equal (x # xs))"
  by (induction xs arbitrary: x) auto

lemma remove_duplicates_Some:
  "remove_duplicates xs (Some t) acc = acc @ tl (collapse_equal ((t, v) # xs))"
proof (induction xs arbitrary: t acc v)
  case Nil
  show ?case by simp
next
  case (Cons p xs)
  obtain t' v' where p: "p = (t', v')" by (cases p)
  show ?case
  proof (cases "t' = t")
    case True
    then show ?thesis using Cons.IH [of t acc v] by (simp add: p)
  next
    case False
    have "remove_duplicates (p # xs) (Some t) acc = (acc @ [(t', v')]) @ tl (collapse_equal ((t', v') # xs))"
      using False Cons.IH [of t' "acc @ [(t', v')]" v'] by (simp add: p)
    also have "\<dots> = acc @ collapse_equal ((t', v') # xs)"
      using collapse_equal_Cons [of "(t', v')" xs] by simp
    finally show ?thesis using False by (simp add: p)
  qed
qed

lemma remove_duplicates_None: "remove_duplicates xs None [] = collapse_equal xs"
proof (cases xs)
  case Nil
  then show ?thesis by simp
next
  case (Cons p ys)
  obtain t v where p: "p = (t, v)" by (cases p)
  show ?thesis
    using remove_duplicates_Some [of ys t "[(t, v)]" v] collapse_equal_Cons [of "(t, v)" ys]
    by (simp add: Cons p)
qed

lemma map_fst_collapse_equal: "map fst (collapse_equal xs) = remdups_adj (map fst xs)"
  by (induction xs rule: collapse_equal.induct) auto

lemma map_of_collapse_equal: "map_of (collapse_equal xs) = map_of xs"
proof (induction xs rule: collapse_equal.induct)
  case (3 x y xs)
  show ?case
  proof (cases "fst x = fst y")
    case True
    then show ?thesis using 3 by (cases x; cases y) (auto simp: fun_eq_iff)
  next
    case False
    then show ?thesis using 3 by (cases x; cases y) (auto simp: fun_eq_iff)
  qed
qed simp_all

lemma map_of_filter_hd:
  "map_of xs t = (case filter (\<lambda>x. fst x = t) xs of [] \<Rightarrow> None | x # _ \<Rightarrow> Some (snd x))"
  by (induction xs) auto

lemma map_of_sort_key: "map_of (sort_key fst xs) = map_of xs"
  by (rule ext) (simp add: map_of_filter_hd sort_key_stable)

lemma map_of_distinct_keys:
  "distinct (map fst xs) \<Longrightarrow> map (map_of xs) (map fst xs) = map Some (map snd xs)"
  by (induction xs) (auto simp: rev_image_eqI)

lemma parse_sangvor_file_lengths:
  "length (fst (parse_sangvor_file strptime to_float fs path skip_lines)) =
   length (snd (parse_sangvor_file strptime to_float fs path skip_lines))"
  by (simp add: parse_sangvor_file_def parse_sangvor_loop_samples)

lemma parse_fanmountains_file_lengths:
  "length (fst (parse_fanmountains_file strptime to_float fs path skip_lines)) =
   length (snd (parse_fanmountains_file strptime to_float fs path skip_lines))"
  by (auto simp: parse_fanmountains_file_def Let_def split: prod.splits)

lemma parse_logger_file_lengths:
  "length (fst (parse_logger_file strptime to_float fs path skip_lines)) =
   length (snd (parse_logger_file strptime to_float fs path skip_lines))"
  by (simp add: parse_logger_file_def Let_def parse_sangvor_file_lengths
        parse_fanmountains_file_lengths)

lemma read_file_group_zip:
  assumes "length all_timestamps = length all_temperatures"
  shows "length (fst (read_file_group strptime to_float fs file_group (all_timestamps, all_temperatures))) =
         length (snd (read_file_group strptime to_float fs file_group (all_timestamps, all_temperatures))) \<and>
         zip (fst (read_file_group strptime to_float fs file_group (all_timestamps, all_temperatures)))
             (snd (read_file_group strptime to_float fs file_group (all_timestamps, all_temperatures))) =
         zip all_timestamps all_temperatures @ group_samples strptime to_float fs file_group"
  using assms
proof (induction file_group arbitrary: all_timestamps all_temperatures)
  case Nil
  then show ?case by (simp add: group_samples_def)
next
  case (Cons f files)
  obtain ts vs where p: "parse_logger_file strptime to_float fs f (determine_skip_lines f) = (ts, vs)"
    by (cases "parse_logger_file strptime to_float fs f (determine_skip_lines f)")
  have len: "length ts = length vs"
    using parse_logger_file_lengths [of strptime to_float fs f "determine_skip_lines f"] p by simp
  have len': "length (all_timestamps @ ts) = length (all_temperatures @ vs)"
    using Cons.prems len by simp
  show ?case
    using Cons.IH [OF len'] Cons.prems len
    by (simp add: p group_samples_def file_samples_def)
qed

lemma collapse_equal_strict:
  fixes xs :: "('t::linorder \<times> 'v) list"
  shows "sorted_wrt (<) (map fst xs) \<Longrightarrow> collapse_equal xs = xs"
  by (induction xs rule: collapse_equal.induct) auto

lemma set_collapse_equal: "fst ` set (collapse_equal xs) = fst ` set xs"
  by (induction xs rule: collapse_equal.induct) auto

lemma strict_sorted_collapse_equal:
  fixes xs :: "('t::linorder \<times> 'v) list"
  shows "sorted (map fst xs) \<Longrightarrow> sorted_wrt (<) (map fst (collapse_equal xs))"
proof (induction xs rule: collapse_equal.induct)
  case (3 x y xs)
  show ?case
  proof (cases "fst x = fst y")
    case True
    then show ?thesis using 3 by simp
  next
    case False
    have lt: "fst x < fst y" using False "3.prems" by (simp add: less_le)
    have "\<forall>t \<in> fst ` set (collapse_equal (y # xs)). fst x < t"
      unfolding set_collapse_equal using lt "3.prems" by auto
    then show ?thesis using False 3 by auto
  qed
qed simp_all


lemma sort_and_deduplicate_eq:
  "sort_and_deduplicate all_timestamps all_temperatures =
    (map fst (collapse_equal (sort_key fst (zip all_timestamps all_temperatures))),
     map snd (collapse_equal (sort_key fst (zip all_timestamps all_temperatures))))"
  by (cases all_timestamps) (simp_all add: sort_and_deduplicate_def remove_duplicates_None Let_def)

lemma concatenate_timeseries_eq:
  "concatenate_timeseries strptime to_float fs file_group =
     (map fst (collapse_equal (sort_key fst (group_samples strptime to_float fs file_group))),
      map snd (collapse_equal (sort_key fst (group_samples strptime to_float fs file_group))))"
proof -
  obtain ats avs where r: "read_file_group strptime to_float fs file_group ([], []) = (ats, avs)"
    by (cases "read_file_group strptime to_float fs file_group ([], [])")
  have z: "zip ats avs = group_samples strptime to_float fs file_group"
    using read_file_group_zip [of "[]" "[]" strptime to_float fs file_group] r by simp
  show ?thesis
    by (simp add: concatenate_timeseries_def r sort_and_deduplicate_eq z)
qed

lemma strict_sorted_collapse_sort:
  fixes xs :: "('t::linorder \<times> 'v) list"
  shows "sorted_wrt (<) (map fst (collapse_equal (sort_key fst xs)))"
  by (rule strict_sorted_collapse_equal) simp

lemma set_fst_collapse_sort:
  "set (map fst (collapse_equal (sort_key fst xs))) = fst ` set xs"
  by (simp add: map_fst_collapse_equal)

lemma sort_key_fst_sorted:
  fixes xs :: "('t::linorder \<times> 'v) list"
  shows "sorted (map fst xs) \<Longrightarrow> sort_key fst xs = xs"
  by (simp add: sort_key_id_if_sorted)

text \<open>
  C1. The merger returns the samples of all files of the group, concatenated in the order
  of the group, sorted stably by timestamp and with a run of equal timestamps collapsed
  to its first sample. So the timestamps returned are strictly increasing, they are the
  distinct timestamps of the samples, and the temperature returned with a timestamp is
  that of the first sample of the concatenation with this timestamp. In particular a
  file of samples at \<open>t1 < t2\<close> merged with a file of samples at \<open>t2 < t3\<close> gives the three
  samples at \<open>t1\<close>, \<open>t2\<close> and \<open>t3\<close>, the one at \<open>t2\<close> from the first file.
\<close>

theorem concatenate_timeseries_merged:
  fixes strptime :: "string \<Rightarrow> 't::linorder option"
  shows "(let samples = group_samples strptime to_float fs file_group;
              (timestamps, temperatures) = concatenate_timeseries strptime to_float fs file_group
          in length timestamps = length temperatures \<and>
             zip timestamps temperatures = collapse_equal (sort_key fst samples) \<and>
             sorted_wrt (<) timestamps \<and>
             timestamps = sorted_list_of_set (fst ` set samples) \<and>
             map Some temperatures = map (map_of samples) timestamps) \<and>
         (file_samples strptime to_float fs f1 = [(t1, a), (t2, b)] \<and>
          file_samples strptime to_float fs f2 = [(t2, c), (t3, d)] \<and> t1 < t2 \<and> t2 < t3 \<longrightarrow>
          concatenate_timeseries strptime to_float fs [f1, f2] = ([t1, t2, t3], [a, b, d]))"
proof (rule conjI)
  define samples where "samples = group_samples strptime to_float fs file_group"
  define R where "R = collapse_equal (sort_key fst samples)"
  have c: "concatenate_timeseries strptime to_float fs file_group = (map fst R, map snd R)"
    by (simp add: concatenate_timeseries_eq R_def samples_def)
  have s: "sorted_wrt (<) (map fst R)"
    unfolding R_def by (rule strict_sorted_collapse_sort)
  then have sd: "sorted (map fst R)" "distinct (map fst R)"
    by (simp_all add: strict_sorted_iff)
  have st: "set (map fst R) = fst ` set samples"
    unfolding R_def by (rule set_fst_collapse_sort)
  have sl: "map fst R = sorted_list_of_set (fst ` set samples)"
    using sd st by (metis sorted_list_of_set.idem_if_sorted_distinct)
  have m: "map_of R = map_of samples"
    by (simp add: R_def map_of_collapse_equal map_of_sort_key)
  have v: "map Some (map snd R) = map (map_of samples) (map fst R)"
    using map_of_distinct_keys [OF sd(2)] m by simp
  have "length (map fst R) = length (map snd R) \<and>
        zip (map fst R) (map snd R) = R \<and>
        sorted_wrt (<) (map fst R) \<and>
        map fst R = sorted_list_of_set (fst ` set samples) \<and>
        map Some (map snd R) = map (map_of samples) (map fst R)"
    by (intro conjI s sl v zip_map_fst_snd) simp
  then show "let samples = group_samples strptime to_float fs file_group;
                 (timestamps, temperatures) = concatenate_timeseries strptime to_float fs file_group
             in length timestamps = length temperatures \<and>
                zip timestamps temperatures = collapse_equal (sort_key fst samples) \<and>
                sorted_wrt (<) timestamps \<and>
                timestamps = sorted_list_of_set (fst ` set samples) \<and>
                map Some temperatures = map (map_of samples) timestamps"
    unfolding Let_def samples_def [symmetric] c prod.case R_def [symmetric] .
next
  show "file_samples strptime to_float fs f1 = [(t1, a), (t2, b)] \<and>
        file_samples strptime to_float fs f2 = [(t2, c), (t3, d)] \<and> t1 < t2 \<and> t2 < t3 \<longrightarrow>
        concatenate_timeseries strptime to_float fs [f1, f2] = ([t1, t2, t3], [a, b, d])"
  proof (intro impI, elim conjE)
    assume f: "file_samples strptime to_float fs f1 = [(t1, a), (t2, b)]"
              "file_samples strptime to_float fs f2 = [(t2, c), (t3, d)]"
       and l: "t1 < t2" "t2 < t3"
    have o: "t1 \<le> t2" "t2 \<le> t3" "t1 \<le> t3" "t1 \<noteq> t2" "t3 \<noteq> t2" "t1 \<noteq> t3"
      using l by auto
    show "concatenate_timeseries strptime to_float fs [f1, f2] = ([t1, t2, t3], [a, b, d])"
      using f o by (simp add: concatenate_timeseries_eq group_samples_def)
  qed
qed

text \<open>
  The two example files of logger A538D8 overlap at 01:00:00: the merged series has three
  samples, and 5.5 of the first file stays at 01:00:00.
\<close>

theorem concatenate_timeseries_merged_witness:
  "file_samples py_strptime float_of_decimal example_fan_fs [''A538D8_1.csv''] =
     [(63713520000, Finite 5), (63713523600, Finite 5.5)] \<and>
   file_samples py_strptime float_of_decimal example_fan_fs [''A538D8_2.csv''] =
     [(63713523600, Finite 6), (63713527200, Finite 6.5)] \<and>
   (63713520000 :: int) < 63713523600 \<and> (63713523600 :: int) < 63713527200 \<and>
   concatenate_timeseries py_strptime float_of_decimal example_fan_fs
     [[''A538D8_1.csv''], [''A538D8_2.csv'']] =
     ([63713520000, 63713523600, 63713527200], [Finite 5, Finite 5.5, Finite 6.5])"
proof -
  have h1: "file_samples py_strptime float_of_decimal example_fan_fs [''A538D8_1.csv''] =
              [(63713520000, Finite 5), (63713523600, Finite 5.5)]"
    by (simp add: file_samples_def parse_logger_file_def parse_fanmountains_file_def
          determine_skip_lines_def example_fan_fs_def example_header_rows_def
          string_defs path_defs library_defs Let_def)
  have h2: "file_samples py_strptime float_of_decimal example_fan_fs [''A538D8_2.csv''] =
              [(63713523600, Finite 6), (63713527200, Finite 6.5)]"
    by (simp add: file_samples_def parse_logger_file_def parse_fanmountains_file_def
          determine_skip_lines_def example_fan_fs_def example_header_rows_def
          string_defs path_defs library_defs Let_def)
  show ?thesis
    using concatenate_timeseries_merged
            [of py_strptime float_of_decimal example_fan_fs "[]"
                "[''A538D8_1.csv'']" 63713520000 "Finite 5" 63713523600 "Finite 5.5"
                "[''A538D8_2.csv'']" "Finite 6" 63713527200 "Finite 6.5"]
          h1 h2
    by simp
qed

text \<open>
  C8. The sort and the removal of duplicates change nothing in a series whose timestamps
  are already strictly increasing; hence applying them to their own result returns that
  result, whatever the input, and the merger returns the samples of a file group
  unchanged when their timestamps are strictly increasing.
\<close>

theorem sort_and_deduplicate_idempotent:
  fixes xs :: "('t::linorder \<times> 'v) list" and strptime :: "string \<Rightarrow> 't option"
    and to_float :: "string \<Rightarrow> 'v option"
    and all_timestamps :: "'t list" and all_temperatures :: "'v list"
  shows "(sorted_wrt (<) (map fst xs) \<longrightarrow>
            sort_and_deduplicate (map fst xs) (map snd xs) = (map fst xs, map snd xs)) \<and>
         sort_and_deduplicate (fst (sort_and_deduplicate all_timestamps all_temperatures))
            (snd (sort_and_deduplicate all_timestamps all_temperatures)) =
           sort_and_deduplicate all_timestamps all_temperatures \<and>
         (sorted_wrt (<) (map fst (group_samples strptime to_float fs file_group)) \<longrightarrow>
            concatenate_timeseries strptime to_float fs file_group =
              (map fst (group_samples strptime to_float fs file_group),
               map snd (group_samples strptime to_float fs file_group)))"
proof -
  have a: "sort_and_deduplicate (map fst ys) (map snd ys) = (map fst ys, map snd ys)"
    if "sorted_wrt (<) (map fst ys)" for ys :: "('t \<times> 'v) list"
  proof -
    have "sorted (map fst ys)" using that by (simp add: strict_sorted_iff)
    then have "sort_key fst ys = ys" by (rule sort_key_fst_sorted)
    then show ?thesis
      using that by (simp add: sort_and_deduplicate_eq zip_map_fst_snd collapse_equal_strict)
  qed
  define R where "R = collapse_equal (sort_key fst (zip all_timestamps all_temperatures))"
  have r: "sort_and_deduplicate all_timestamps all_temperatures = (map fst R, map snd R)"
    by (simp add: sort_and_deduplicate_eq R_def)
  have "sorted_wrt (<) (map fst R)" unfolding R_def by (rule strict_sorted_collapse_sort)
  then have b: "sort_and_deduplicate (fst (sort_and_deduplicate all_timestamps all_temperatures))
            (snd (sort_and_deduplicate all_timestamps all_temperatures)) =
           sort_and_deduplicate all_timestamps all_temperatures"
    using a [of R] by (simp add: r)
  have c: "concatenate_timeseries strptime to_float fs file_group =
              (map fst (group_samples strptime to_float fs file_group),
               map snd (group_samples strptime to_float fs file_group))"
    if "sorted_wrt (<) (map fst (group_samples strptime to_float fs file_group))"
  proof -
    have "sorted (map fst (group_samples strptime to_float fs file_group))"
      using that by (simp add: strict_sorted_iff)
    then have "sort_key fst (group_samples strptime to_float fs file_group) =
               group_samples strptime to_float fs file_group"
      by (rule sort_key_fst_sorted)
    then show ?thesis
      using that by (simp add: concatenate_timeseries_eq collapse_equal_strict)
  qed
  show ?thesis using a [of xs] b c by blast
qed

text \<open>
  A series of two samples in increasing order is returned as it is; so are the samples
  of the first example file, merged alone.
\<close>

theorem sort_and_deduplicate_idempotent_witness:
  "sorted_wrt (<) (map fst [(1 :: int, Finite 5), (2, Finite 4)]) \<and>
   sort_and_deduplicate (map fst [(1 :: int, Finite 5), (2, Finite 4)])
       (map snd [(1 :: int, Finite 5), (2, Finite 4)]) = ([1, 2], [Finite 5, Finite 4]) \<and>
   sorted_wrt (<) (map fst (group_samples py_strptime float_of_decimal example_fan_fs
                              [[''A538D8_1.csv'']])) \<and>
   concatenate_timeseries py_strptime float_of_decimal example_fan_fs [[''A538D8_1.csv'']] =
     ([63713520000, 63713523600], [Finite 5, Finite 5.5])"
proof -
  have g: "group_samples py_strptime float_of_decimal example_fan_fs [[''A538D8_1.csv'']] =
             [(63713520000, Finite 5), (63713523600, Finite 5.5)]"
    by (simp add: group_samples_def file_samples_def parse_logger_file_def
          parse_fanmountains_file_def determine_skip_lines_def example_fan_fs_def
          example_header_rows_def string_defs path_defs library_defs Let_def)
  show ?thesis
    using sort_and_deduplicate_idempotent
            [of "[(1 :: int, Finite 5), (2, Finite 4)]" "[]" "[] :: pyfloat list"
                py_strptime float_of_decimal example_fan_fs "[[''A538D8_1.csv'']]"]
    by (simp add: g)
qed

section \<open>Properties of the fanmountains parser\<close>

lemma parse_fanmountains_loop_eq:
  "parse_fanmountains_loop strptime to_float skip_lines rows (timestamps, temperatures) =
     (timestamps @ List.map_filter (fanmountains_timestamp strptime)
                     (map snd (filter (\<lambda>(row_num, x). \<not> int row_num \<le> skip_lines) rows)),
      temperatures @ map snd (List.map_filter (fanmountains_sample strptime to_float)
                     (map snd (filter (\<lambda>(row_num, x). \<not> int row_num \<le> skip_lines) rows))))"
proof (induction rows arbitrary: timestamps temperatures)
  case Nil
  show ?case by simp
next
  case (Cons r rows)
  obtain row_num row where r: "r = (row_num, row)" by (cases r)
  show ?case
    unfolding r
    by (simp add: Cons.IH fanmountains_sample_def fanmountains_timestamp_def
          fanmountains_fields_def Let_def split: option.splits)
qed

text \<open>
  What the parser returns: the temperatures of the rows of which both fields convert,
  and as many timestamps, taken from the front of the timestamps of all rows whose
  timestamp converts. The truncation that is to make the lists equally long drops the
  last timestamps, not those of the rows whose temperature failed.
\<close>

lemma parse_fanmountains_file_eq:
  "parse_fanmountains_file strptime to_float fs path skip_lines =
     (let timestamps = List.map_filter (fanmountains_timestamp strptime)
                         (data_lines skip_lines (csv_rows fs path));
          temperatures = map snd (List.map_filter (fanmountains_sample strptime to_float)
                         (data_lines skip_lines (csv_rows fs path)))
      in (take (length temperatures) timestamps, temperatures))"
proof -
  have le: "length (List.map_filter (fanmountains_sample strptime to_float) xs) \<le>
            length (List.map_filter (fanmountains_timestamp strptime) xs)" for xs
    by (induction xs)
       (auto simp: fanmountains_sample_def fanmountains_timestamp_def split: option.splits)
  show ?thesis
    using le [of "data_lines skip_lines (csv_rows fs path)"]
    by (simp add: parse_fanmountains_file_def parse_fanmountains_loop_eq data_lines_def Let_def
          min_def)
qed

text \<open>
  C2. A fanmountains row whose timestamp converts and whose temperature does not is to
  contribute to neither list. On the example file the parser returns one pair, the
  timestamp 00:00:00 of the row with the temperature \<^verbatim>\<open>abc\<close> beside the temperature 5.5
  of the row of 01:00:00, whereas the only fully valid row is (01:00:00, 5.5).
\<close>

theorem parse_fanmountains_file_keeps_timestamp:
  "parse_fanmountains_file py_strptime float_of_decimal example_bad_temperature_fs
     [''A538D8_3.csv''] 12 = ([63713520000], [Finite 5.5]) \<and>
   List.map_filter (fanmountains_sample py_strptime float_of_decimal)
     (data_lines 12 (csv_rows example_bad_temperature_fs [''A538D8_3.csv''])) =
     [(63713523600, Finite 5.5)]"
  by (simp add: parse_fanmountains_file_def example_bad_temperature_fs_def example_header_rows_def
        fanmountains_sample_def fanmountains_fields_def data_lines_def
        string_defs library_defs Let_def)

section \<open>Properties of the offset parser\<close>

lemmas offset_defs = parse_offset_def re_match_offset_def match_unit_def group_int_def
  mk_timedelta_def is_digit_def is_space_def startswith_def int_of_digits_def digit_val_def

lemma parse_offset_well_formed:
  "parse_offset ''1d 2h'' = Inr 93600 \<and> parse_offset ''438d 3h 29min 29sec'' = Inr 37855769"
  by (simp add: offset_defs Let_def)

text \<open>
  C3. A malformed offset string is to raise an error. Every group of the pattern is
  optional and the match is not anchored at the end, so the pattern matches at the start
  of every string and the \<^verbatim>\<open>ValueError\<close> of \<^verbatim>\<open>parse_offset\<close> is never raised: \<^verbatim>\<open>garbage\<close> and
  \<^verbatim>\<open>1x\<close> give the zero offset, \<^verbatim>\<open>2h 30\<close> gives two hours and \<^verbatim>\<open>5sec 3d\<close> five seconds.
\<close>

theorem parse_offset_never_rejects:
  "re_match_offset s \<noteq> None \<and>
   parse_offset ''garbage'' = Inr 0 \<and> parse_offset ''1x'' = Inr 0 \<and>
   parse_offset ''2h 30'' = Inr 7200 \<and> parse_offset ''5sec 3d'' = Inr 5"
proof -
  have "re_match_offset s \<noteq> None"
    by (simp add: re_match_offset_def Let_def split: prod.splits)
  then show ?thesis by (simp add: offset_defs Let_def)
qed

section \<open>Properties of the metadata loaders\<close>

lemma id_and_row:
  "(if truthy row ''BLE-ID/Geoprecision''
    then (strip (field_or row ''BLE-ID/Geoprecision'' []),
          if truthy row ''ID'' then row(''WP_ID'' := row ''ID'') else row)
    else if truthy row ''ID'' then (strip (field_or row ''ID'' []), row)
    else ([], row)) = (resolved_id row, wp_row row)"
  by (simp add: resolved_id_def wp_row_def)

lemma wp_row_other: "k \<noteq> ''WP_ID'' \<Longrightarrow> wp_row row k = row k"
  by (simp add: wp_row_def)

lemma wp_row_fields:
  "field_or (wp_row row) ''LAT'' (field_or (wp_row row) ''Y'' []) = lat_field row"
  "field_or (wp_row row) ''LON'' (field_or (wp_row row) ''X'' []) = lon_field row"
  "wp_row row ''Altitude'' = row ''Altitude''"
  "truthy (wp_row row) ''ELE'' = truthy row ''ELE''"
  by (simp_all add: field_or_def truthy_def lat_field_def lon_field_def wp_row_other)

lemma cells_of_wp_row: "k \<noteq> ''WP_ID'' \<Longrightarrow> cells_of (wp_row row) k = cells_of row k"
  by (simp add: cells_of_def wp_row_other)

lemma load_metadata_map_step:
  "load_metadata_map_loop to_float (row # rest) (metadata, warnings) =
     load_metadata_map_loop to_float rest
       (metadata @ (if retained to_float row then [normalized_row to_float row] else []),
        warnings @ (if warned to_float row
                    then [(resolved_id row, lat_field row, lon_field row)] else []))"
proof -
  have u: "(lat_field row \<noteq> [] \<and> lon_field row \<noteq> [] \<and> resolved_id row \<noteq> [] \<and>
            resolved_id row \<noteq> ''-'') = usable_fields row"
    by (simp add: usable_fields_def)
  have step: "load_metadata_map_loop to_float (row # rest) (metadata, warnings) =
    (if usable_fields row
     then
       (case to_float (lat_field row) of
          None \<Rightarrow>
            load_metadata_map_loop to_float rest
              (metadata, warnings @ [(resolved_id row, lat_field row, lon_field row)])
        | Some lat \<Rightarrow>
            (case to_float (lon_field row) of
               None \<Rightarrow>
                 load_metadata_map_loop to_float rest
                   (metadata, warnings @ [(resolved_id row, lat_field row, lon_field row)])
             | Some lon \<Rightarrow>
                 if in_range lat lon
                 then load_metadata_map_loop to_float rest
                        (metadata @ [normalized_row to_float row], warnings)
                 else load_metadata_map_loop to_float rest (metadata, warnings)))
     else load_metadata_map_loop to_float rest (metadata, warnings))"
    unfolding load_metadata_map_loop.simps id_and_row Let_def prod.case wp_row_fields u
    by (simp add: in_range_def normalized_row_def cells_of_wp_row Let_def split: option.splits)
  show ?thesis
  proof (cases "usable_fields row")
    case False
    then show ?thesis by (subst step) (simp add: retained_def warned_def)
  next
    case True
    show ?thesis
    proof (cases "to_float (lat_field row)")
      case None
      then show ?thesis using True by (subst step) (simp add: retained_def warned_def)
    next
      case (Some lat)
      show ?thesis
      proof (cases "to_float (lon_field row)")
        case None
        then show ?thesis using True Some by (subst step) (simp add: retained_def warned_def)
      next
        case lon: (Some lon)
        then show ?thesis using True Some by (subst step) (simp add: retained_def warned_def)
      qed
    qed
  qed
qed

lemma load_metadata_map_loop_eq:
  "load_metadata_map_loop to_float rows (metadata, warnings) =
     (metadata @ map (normalized_row to_float) (filter (retained to_float) rows),
      warnings @ map (\<lambda>row. (resolved_id row, lat_field row, lon_field row))
                   (filter (warned to_float) rows))"
proof (induction rows arbitrary: metadata warnings)
  case Nil
  show ?case by simp
next
  case (Cons row rows)
  show ?case
    unfolding load_metadata_map_step Cons.IH by simp
qed

lemma load_metadata_loop_last:
  assumes "\<forall>row \<in> set rows. row ''ID'' \<noteq> Some None"
  shows "load_metadata_loop rows metadata k =
           (case filter (\<lambda>row. plot_id row = k \<and> k \<noteq> []) rows of
              [] \<Rightarrow> metadata k
            | r # rs \<Rightarrow> Some (last (r # rs)))"
  using assms
proof (induction rows arbitrary: metadata)
  case Nil
  show ?case by simp
next
  case (Cons row rows)
  then have ih: "load_metadata_loop rows m k =
           (case filter (\<lambda>row. plot_id row = k \<and> k \<noteq> []) rows of
              [] \<Rightarrow> m k
            | r # rs \<Rightarrow> Some (last (r # rs)))" for m
    by simp
  from Cons.prems have ns: "row ''ID'' \<noteq> Some None" by simp
  show ?case
  proof (cases "row ''ID''")
    case None
    then show ?thesis by (auto simp: ih plot_id_def split: list.splits)
  next
    case (Some v)
    with ns obtain field where f: "row ''ID'' = Some (Some field)" by (cases v) auto
    show ?thesis
      by (auto simp: f ih plot_id_def Let_def split: list.splits)
  qed
qed

lemma load_metadata_keyed_by_ID:
  assumes "\<forall>row \<in> set rows. row ''ID'' \<noteq> Some None"
  shows "load_metadata (Some rows) k =
           (case filter (\<lambda>row. plot_id row = k \<and> k \<noteq> []) rows of
              [] \<Rightarrow> None
            | r # rs \<Rightarrow> Some (last (r # rs)))"
  using load_metadata_loop_last [OF assms, of Map.empty k] by (simp add: load_metadata_def)

lemma load_metadata_loop_row:
  "load_metadata_loop rows metadata k = Some row \<Longrightarrow> row \<in> set rows \<or> metadata k = Some row"
proof (induction rows arbitrary: metadata)
  case Nil
  then show ?case by simp
next
  case (Cons r rows)
  show ?case
  proof (cases "r ''ID''")
    case None
    then show ?thesis using Cons by auto
  next
    case (Some v)
    show ?thesis
    proof (cases v)
      case None
      then show ?thesis using Cons.prems Some by simp
    next
      case field: (Some field)
      show ?thesis
      proof (cases "strip field = []")
        case True
        then show ?thesis using Cons Some field by auto
      next
        case False
        then have "load_metadata_loop rows (metadata(strip field \<mapsto> r)) k = Some row"
          using Cons.prems Some field by simp
        then have "row \<in> set rows \<or> (metadata(strip field \<mapsto> r)) k = Some row"
          by (rule Cons.IH)
        then show ?thesis by (auto split: if_splits)
      qed
    qed
  qed
qed

lemma load_metadata_row: "load_metadata (Some rows) k = Some row \<Longrightarrow> row \<in> set rows"
  using load_metadata_loop_row [of rows Map.empty k row] by (simp add: load_metadata_def)

lemma foldl_map_add_last:
  assumes "f t k = Some row" and "\<forall>t' \<in> set after. f t' k = None"
  shows "foldl (\<lambda>m t. m ++ f t) m0 (before @ t # after) k = Some row"
  using assms(2)
proof (induction after rule: rev_induct)
  case Nil
  show ?case using assms(1) by (simp add: map_add_def)
next
  case (snoc t' after)
  then have "foldl (\<lambda>m t. m ++ f t) m0 (before @ t # after) k = Some row" by simp
  moreover have "f t' k = None" using snoc.prems by simp
  ultimately show ?case
    by (simp add: map_add_def flip: append_Cons append_assoc)
qed

lemma load_all_metadata_eq:
  "load_all_metadata data_root =
     foldl (\<lambda>m t. m ++ load_metadata (Some t)) Map.empty (tables_in_load_order data_root)"
  by (simp add: load_all_metadata_def tables_in_load_order_def Let_def split: option.splits)

lemma foldl_append_fst:
  "foldl (\<lambda>all_metadata t. all_metadata @ f t) acc ts = acc @ concat (map f ts)"
  by (induction ts arbitrary: acc) simp_all

lemma load_all_metadata_map_eq:
  "load_all_metadata_map to_float data_root =
     concat (map (\<lambda>t. fst (load_metadata_map to_float (Some t))) (tables_in_load_order data_root))"
  by (simp add: load_all_metadata_map_def tables_in_load_order_def Let_def foldl_append_fst
        split: option.splits)

lemma normalized_row_ID: "normalized_row to_float row ''ID'' = Some (Str (resolved_id row))"
  by (simp add: normalized_row_def Let_def)

lemma normalized_row_WP_ID:
  "normalized_row to_float row ''WP_ID'' =
     (if truthy row ''BLE-ID/Geoprecision'' \<and> truthy row ''ID''
      then Some (Str (field_or row ''ID'' []))
      else cells_of row ''WP_ID'')"
  by (auto simp: normalized_row_def Let_def wp_row_def cells_of_def truthy_def field_or_def
        split: option.splits)

lemma resolved_id_eq:
  "resolved_id row = strip (field_or row ''BLE-ID/Geoprecision'' (field_or row ''ID'' []))"
  by (auto simp: resolved_id_def truthy_def field_or_def strip_def lstrip_def rstrip_def
        split: option.splits)

lemmas metadata_defs = load_metadata_def load_metadata_map_def truthy_def field_or_def
  cells_of_def in_range_def retained_def warned_def usable_fields_def resolved_id_def
  lat_field_def lon_field_def plot_id_def

lemmas example_row_defs = example_row_x1_def example_row_lat91_def example_row_dash_def
  example_row_unparsable_def example_row_old_def example_row_new_def

text \<open>
  C4, as amended. In \<^verbatim>\<open>plot_ground_temperature.py\<close> the mapping holds, for a logger id, the
  whole row of the last-loaded table that defines it. In \<^verbatim>\<open>interactive_map.py\<close> the loader
  returns a list: the rows of all tables in load order, those of an earlier table kept
  beside those of a later one.
\<close>

theorem load_all_metadata_last_table:
  "(tables_in_load_order data_root = before @ t # after \<and>
    load_metadata (Some t) k = Some row \<and>
    (\<forall>t' \<in> set after. load_metadata (Some t') k = None) \<longrightarrow>
    load_all_metadata data_root k = Some row \<and> row \<in> set t) \<and>
   load_all_metadata_map to_float data_root =
     concat (map (\<lambda>t. fst (load_metadata_map to_float (Some t))) (tables_in_load_order data_root))"
proof (intro conjI impI)
  assume a: "tables_in_load_order data_root = before @ t # after \<and>
    load_metadata (Some t) k = Some row \<and>
    (\<forall>t' \<in> set after. load_metadata (Some t') k = None)"
  show "load_all_metadata data_root k = Some row"
    using a foldl_map_add_last [of "\<lambda>t. load_metadata (Some t)" t k row after Map.empty before]
    by (simp add: load_all_metadata_eq)
  show "row \<in> set t" using a load_metadata_row by blast
next
  show "load_all_metadata_map to_float data_root =
     concat (map (\<lambda>t. fst (load_metadata_map to_float (Some t))) (tables_in_load_order data_root))"
    by (rule load_all_metadata_map_eq)
qed

text \<open>
  In the example data directory the second table is the last to define A538D8: the
  mapping of the plotting script holds its row.
\<close>

theorem load_all_metadata_last_table_witness:
  "tables_in_load_order example_data_dir =
     [[example_row_old]] @ [example_row_new] # [[example_row_x1]] \<and>
   load_metadata (Some [example_row_old]) ''A538D8'' = Some example_row_old \<and>
   load_metadata (Some [example_row_new]) ''A538D8'' = Some example_row_new \<and>
   load_metadata (Some [example_row_x1]) ''A538D8'' = None \<and>
   load_all_metadata example_data_dir ''A538D8'' = Some example_row_new"
proof -
  have t: "tables_in_load_order example_data_dir =
             [[example_row_old]] @ [example_row_new] # [[example_row_x1]]"
    by (simp add: tables_in_load_order_def example_data_dir_def)
  have o: "load_metadata (Some [example_row_old]) ''A538D8'' = Some example_row_old"
    by (simp add: load_metadata_def example_row_old_def string_defs Let_def)
  have n: "load_metadata (Some [example_row_new]) ''A538D8'' = Some example_row_new"
    by (simp add: load_metadata_def example_row_new_def string_defs Let_def)
  have x: "load_metadata (Some [example_row_x1]) ''A538D8'' = None"
    by (simp add: load_metadata_def example_row_x1_def string_defs Let_def)
  show ?thesis
    using load_all_metadata_last_table
            [of example_data_dir "[[example_row_old]]" "[example_row_new]" "[[example_row_x1]]"
                "''A538D8''" example_row_new float_of_decimal]
          t o n x
    by simp
qed

text \<open>
  The list of the map script for the same directory holds both rows of A538D8, the old
  one first: no row replaces another.
\<close>

theorem load_all_metadata_map_keeps_both:
  "map (\<lambda>out. (out ''ID'', out ''Notes''))
     (load_all_metadata_map float_of_decimal example_data_dir) =
     [(Some (Str ''A538D8''), Some (Str ''old'')), (Some (Str ''A538D8''), Some (Str ''new'')),
      (Some (Str ''X1''), None)]"
  by (simp add: load_all_metadata_map_def load_metadata_map_def example_data_dir_def
        example_row_defs truthy_def field_or_def cells_of_def string_defs library_defs Let_def)




text \<open>
  C6, as amended. \<^verbatim>\<open>load_metadata\<close> of \<^verbatim>\<open>interactive_map.py\<close> stores each retained row under
  the identifier taken from \<^verbatim>\<open>BLE-ID/Geoprecision\<close> when that field is present and not
  empty and from \<^verbatim>\<open>ID\<close> otherwise, and when \<^verbatim>\<open>BLE-ID/Geoprecision\<close> gave the identifier and
  there is a non-empty \<^verbatim>\<open>ID\<close> field, that field is stored under \<^verbatim>\<open>WP_ID\<close>. \<^verbatim>\<open>load_metadata\<close> of
  \<^verbatim>\<open>plot_ground_temperature.py\<close> reads the \<^verbatim>\<open>ID\<close> column only: on a table all of whose rows
  have an \<^verbatim>\<open>ID\<close> field, the row under a key is the last row whose stripped \<^verbatim>\<open>ID\<close> is the key.
\<close>

theorem load_metadata_map_identifier:
  "map (\<lambda>out. (out ''ID'', out ''WP_ID'')) (fst (load_metadata_map to_float (Some rows))) =
     map (\<lambda>row. (Some (Str (resolved_id row)),
                  if truthy row ''BLE-ID/Geoprecision'' \<and> truthy row ''ID''
                  then Some (Str (field_or row ''ID'' []))
                  else cells_of row ''WP_ID''))
         (filter (retained to_float) rows) \<and>
   resolved_id row = strip (field_or row ''BLE-ID/Geoprecision'' (field_or row ''ID'' [])) \<and>
   ((\<forall>r \<in> set rows. r ''ID'' \<noteq> Some None) \<longrightarrow>
      load_metadata (Some rows) k =
        (case filter (\<lambda>r. plot_id r = k \<and> k \<noteq> []) rows of
           [] \<Rightarrow> None
         | r # rs \<Rightarrow> Some (last (r # rs))))"
proof (intro conjI impI)
  show "map (\<lambda>out. (out ''ID'', out ''WP_ID'')) (fst (load_metadata_map to_float (Some rows))) =
     map (\<lambda>row. (Some (Str (resolved_id row)),
                  if truthy row ''BLE-ID/Geoprecision'' \<and> truthy row ''ID''
                  then Some (Str (field_or row ''ID'' []))
                  else cells_of row ''WP_ID''))
         (filter (retained to_float) rows)"
    by (simp add: load_metadata_map_def load_metadata_map_loop_eq normalized_row_ID
          normalized_row_WP_ID)
  show "resolved_id row = strip (field_or row ''BLE-ID/Geoprecision'' (field_or row ''ID'' []))"
    by (rule resolved_id_eq)
next
  assume "\<forall>r \<in> set rows. r ''ID'' \<noteq> Some None"
  then show "load_metadata (Some rows) k =
        (case filter (\<lambda>r. plot_id r = k \<and> k \<noteq> []) rows of
           [] \<Rightarrow> None
         | r # rs \<Rightarrow> Some (last (r # rs)))"
    by (rule load_metadata_keyed_by_ID)
qed

text \<open>
  The row with \<^verbatim>\<open>BLE-ID/Geoprecision="X1"\<close> and \<^verbatim>\<open>ID="WP5"\<close> is stored by the map script with
  \<^verbatim>\<open>ID\<close> X1 and \<^verbatim>\<open>WP_ID\<close> WP5.
\<close>

theorem load_metadata_map_identifier_witness:
  "map (\<lambda>out. (out ''ID'', out ''WP_ID''))
     (fst (load_metadata_map float_of_decimal (Some [example_row_x1]))) =
     [(Some (Str ''X1''), Some (Str ''WP5''))] \<and>
   resolved_id example_row_x1 = ''X1'' \<and>
   load_metadata (Some [example_row_x1]) ''WP5'' = Some example_row_x1"
proof -
  have r: "filter (retained float_of_decimal) [example_row_x1] = [example_row_x1]"
    by (simp add: metadata_defs example_row_defs string_defs library_defs Let_def)
  have f: "truthy example_row_x1 ''BLE-ID/Geoprecision''" "truthy example_row_x1 ''ID''"
    "field_or example_row_x1 ''ID'' [] = ''WP5''"
    "resolved_id example_row_x1 = ''X1''"
    "plot_id example_row_x1 = ''WP5''" "example_row_x1 ''ID'' \<noteq> Some None"
    by (simp_all add: metadata_defs example_row_defs string_defs)
  have s: "\<forall>r \<in> set [example_row_x1]. r ''ID'' \<noteq> Some None"
    using f(6) by simp
  have l: "filter (\<lambda>r. plot_id r = ''WP5'' \<and> ''WP5'' \<noteq> []) [example_row_x1] = [example_row_x1]"
    using f(5) by simp
  note T = load_metadata_map_identifier
            [of float_of_decimal "[example_row_x1]" example_row_x1 "''WP5''"]
  have a: "map (\<lambda>out. (out ''ID'', out ''WP_ID''))
     (fst (load_metadata_map float_of_decimal (Some [example_row_x1]))) =
     [(Some (Str ''X1''), Some (Str ''WP5''))]"
    using T [THEN conjunct1] unfolding r by (simp add: f)
  have b: "resolved_id example_row_x1 = ''X1''"
    using T [THEN conjunct2, THEN conjunct1]
    by (simp add: field_or_def example_row_defs string_defs)
  have c: "load_metadata (Some [example_row_x1]) ''WP5'' = Some example_row_x1"
    using T [THEN conjunct2, THEN conjunct2, THEN mp, OF s] unfolding l by simp
  show ?thesis using a b c by simp
qed

text \<open>
  The plotting script stores the same row under WP5, its \<^verbatim>\<open>ID\<close> field, and has no row
  under X1.
\<close>

theorem load_metadata_ignores_ble_id:
  "load_metadata (Some [example_row_x1]) ''X1'' = None \<and>
   load_metadata (Some [example_row_x1]) ''WP5'' = Some example_row_x1"
  by (simp add: load_metadata_def example_row_x1_def string_defs Let_def)

section \<open>Properties of the file grouper\<close>

lemma split_on_nonempty: "split_on d s \<noteq> []"
  by (induction s) (auto split: list.splits)

lemma hd_split_on: "hd (split_on d s) = takeWhile (\<lambda>c. c \<noteq> d) s"
  using split_on_nonempty by (induction s) (auto split: list.splits)

lemma group_loop_eq:
  "group_loop csv_files grouped k =
     (case filter (\<lambda>f. \<not> is_metadata_file f \<and> logger_id_of f = k \<and> k \<noteq> []) csv_files of
        [] \<Rightarrow> grouped k
      | f # fs \<Rightarrow> Some ((case grouped k of None \<Rightarrow> [] | Some files \<Rightarrow> files) @ f # fs))"
proof (induction csv_files arbitrary: grouped)
  case Nil
  show ?case by simp
next
  case (Cons csv_file rest)
  show ?case
    by (auto simp: Cons.IH Let_def split: list.splits option.splits)
qed

lemma group_files_by_logger_id_eq:
  "group_files_by_logger_id csv_files k =
     (case filter (\<lambda>f. \<not> is_metadata_file f \<and> logger_id_of f = k \<and> k \<noteq> []) csv_files of
        [] \<Rightarrow> None
      | f # fs \<Rightarrow> Some (sort (f # fs)))"
  by (simp add: group_files_by_logger_id_def group_loop_eq Let_def split: list.splits)

lemma logger_id_of_eq:
  "logger_id_of csv_file =
     (let candidate = takeWhile (\<lambda>c. c \<noteq> CHR ''_'') (path_stem csv_file);
          grandparent = path_name (path_parent (path_parent csv_file))
      in if \<not> str_contains (lower (path_str csv_file)) ''sangvor'' \<and>
            length candidate < 3 \<and> length grandparent > 3
         then grandparent else candidate)"
  by (auto simp: logger_id_of_def hd_split_on Let_def)

text \<open>
  C7, as amended. The grouper leaves out the files whose path contains \<^verbatim>\<open>metadata\<close> or
  whose name ends with \<^verbatim>\<open>meta.csv\<close>, and the files whose logger id is empty; the group of a
  logger id is the list of the remaining files with this id, sorted as paths. The logger
  id of a file is the piece of its stem before the first underscore; only when the path
  does not contain \<^verbatim>\<open>sangvor\<close>, this piece has fewer than 3 characters and the name of the
  grandparent directory has more than 3, the id is the name of the grandparent directory.
\<close>

theorem group_files_by_logger_id_groups:
  "group_files_by_logger_id csv_files k =
     (case filter (\<lambda>f. \<not> is_metadata_file f \<and> logger_id_of f = k \<and> k \<noteq> []) csv_files of
        [] \<Rightarrow> None
      | f # fs \<Rightarrow> Some (sort (f # fs))) \<and>
   is_metadata_file csv_file =
     (str_contains (path_str csv_file) ''metadata'' \<or> endswith (path_name csv_file) ''meta.csv'') \<and>
   logger_id_of csv_file =
     (let candidate = takeWhile (\<lambda>c. c \<noteq> CHR ''_'') (path_stem csv_file);
          grandparent = path_name (path_parent (path_parent csv_file))
      in if \<not> str_contains (lower (path_str csv_file)) ''sangvor'' \<and>
            length candidate < 3 \<and> length grandparent > 3
         then grandparent else candidate) \<and>
   logger_id_of [''data'', ''sangvor'', ''2005-0070_20220907_0332.csv''] = ''2005-0070'' \<and>
   logger_id_of [''data'', ''fan'', ''A538D8_20220916084244.csv''] = ''A538D8''"
proof (intro conjI)
  show "group_files_by_logger_id csv_files k =
     (case filter (\<lambda>f. \<not> is_metadata_file f \<and> logger_id_of f = k \<and> k \<noteq> []) csv_files of
        [] \<Rightarrow> None
      | f # fs \<Rightarrow> Some (sort (f # fs)))"
    by (rule group_files_by_logger_id_eq)
  show "is_metadata_file csv_file =
     (str_contains (path_str csv_file) ''metadata'' \<or> endswith (path_name csv_file) ''meta.csv'')"
    by (rule is_metadata_file_def)
  show "logger_id_of csv_file =
     (let candidate = takeWhile (\<lambda>c. c \<noteq> CHR ''_'') (path_stem csv_file);
          grandparent = path_name (path_parent (path_parent csv_file))
      in if \<not> str_contains (lower (path_str csv_file)) ''sangvor'' \<and>
            length candidate < 3 \<and> length grandparent > 3
         then grandparent else candidate)"
    by (rule logger_id_of_eq)
  show "logger_id_of [''data'', ''sangvor'', ''2005-0070_20220907_0332.csv''] = ''2005-0070''"
    by (simp add: logger_id_of_def string_defs path_defs Let_def)
  show "logger_id_of [''data'', ''fan'', ''A538D8_20220916084244.csv''] = ''A538D8''"
    by (simp add: logger_id_of_def string_defs path_defs Let_def)
qed

text \<open>
  Of the example files the two of A538D8 form one group, in sorted order; the metadata
  file is in no group; the file under \<^verbatim>\<open>LOGGER7/raw\<close> is grouped under \<^verbatim>\<open>LOGGER7\<close>.
\<close>

theorem group_files_by_logger_id_groups_witness:
  "group_files_by_logger_id example_csv_files ''A538D8'' =
     Some [[''data'', ''fan'', ''A538D8_1.csv''], [''data'', ''fan'', ''A538D8_2.csv'']] \<and>
   group_files_by_logger_id example_csv_files ''LOGGER7'' =
     Some [[''LOGGER7'', ''raw'', ''ab_1.csv'']] \<and>
   group_files_by_logger_id example_csv_files ''sites'' = None \<and>
   is_metadata_file [''data'', ''metadata'', ''sites.csv''] \<and>
   logger_id_of [''LOGGER7'', ''raw'', ''ab_1.csv''] = ''LOGGER7''"
proof -
  have m: "is_metadata_file [''data'', ''metadata'', ''sites.csv'']"
    "\<not> is_metadata_file [''data'', ''fan'', ''A538D8_2.csv'']"
    "\<not> is_metadata_file [''data'', ''fan'', ''A538D8_1.csv'']"
    "\<not> is_metadata_file [''LOGGER7'', ''raw'', ''ab_1.csv'']"
    by (simp_all add: is_metadata_file_def string_defs path_defs)
  have i: "logger_id_of [''data'', ''fan'', ''A538D8_2.csv''] = ''A538D8''"
    "logger_id_of [''data'', ''fan'', ''A538D8_1.csv''] = ''A538D8''"
    "logger_id_of [''LOGGER7'', ''raw'', ''ab_1.csv''] = ''LOGGER7''"
    by (simp_all add: logger_id_of_def string_defs path_defs Let_def)
  have a: "group_files_by_logger_id example_csv_files ''A538D8'' =
     Some [[''data'', ''fan'', ''A538D8_1.csv''], [''data'', ''fan'', ''A538D8_2.csv'']]"
    using group_files_by_logger_id_groups [of example_csv_files "''A538D8''", THEN conjunct1]
    by (simp add: example_csv_files_def m i)
  have b: "group_files_by_logger_id example_csv_files ''LOGGER7'' =
     Some [[''LOGGER7'', ''raw'', ''ab_1.csv'']]"
    using group_files_by_logger_id_groups [of example_csv_files "''LOGGER7''", THEN conjunct1]
    by (simp add: example_csv_files_def m i)
  have c: "group_files_by_logger_id example_csv_files ''sites'' = None"
    using group_files_by_logger_id_groups [of example_csv_files "''sites''", THEN conjunct1]
    by (simp add: example_csv_files_def m i)
  show ?thesis using a b c m(1) i(3) by simp
qed

text \<open>
  A sangvor file whose candidate has two characters is grouped under the candidate, not
  under its grandparent directory \<^verbatim>\<open>LOGGER1\<close>; and so is a file of the other format whose
  grandparent directory has a name of three characters.
\<close>

theorem group_files_by_logger_id_short_candidate:
  "group_files_by_logger_id [[''sangvor'', ''LOGGER1'', ''raw'', ''ab_1.csv'']] ''ab'' =
     Some [[''sangvor'', ''LOGGER1'', ''raw'', ''ab_1.csv'']] \<and>
   group_files_by_logger_id [[''sangvor'', ''LOGGER1'', ''raw'', ''ab_1.csv'']] ''LOGGER1'' = None \<and>
   group_files_by_logger_id [[''XYZ'', ''raw'', ''ab_1.csv'']] ''ab'' =
     Some [[''XYZ'', ''raw'', ''ab_1.csv'']] \<and>
   group_files_by_logger_id [[''XYZ'', ''raw'', ''ab_1.csv'']] ''XYZ'' = None"
  by (simp add: group_files_by_logger_id_def logger_id_of_def is_metadata_file_def
        string_defs path_defs Let_def)

section \<open>Properties of the offset rewriter\<close>

lemma join_split_on: "join [d] (split_on d s) = s"
proof (induction s)
  case Nil
  show ?case by simp
next
  case (Cons c cs)
  show ?case
  proof (cases "c = d")
    case True
    then show ?thesis using Cons split_on_nonempty [of d cs]
      by (cases "split_on d cs") auto
  next
    case False
    then show ?thesis using Cons split_on_nonempty [of d cs]
      by (cases "split_on d cs"; cases "tl (split_on d cs)") auto
  qed
qed

lemma length_split_on: "d \<in> set s \<Longrightarrow> 2 \<le> length (split_on d s)"
  using split_on_nonempty
  by (induction s) (auto split: list.splits simp: Suc_le_eq)

lemma tl_split_on: "d \<in> set s \<Longrightarrow> d # join [d] (tl (split_on d s)) = dropWhile (\<lambda>c. c \<noteq> d) s"
proof (induction s)
  case Nil
  then show ?case by simp
next
  case (Cons c cs)
  show ?case
  proof (cases "c = d")
    case True
    then show ?thesis by (simp add: join_split_on)
  next
    case False
    then have "d \<in> set cs" using Cons.prems by simp
    then show ?thesis using False Cons.IH by (auto split: list.splits)
  qed
qed

lemma nth_split_on_0: "split_on d s ! 0 = takeWhile (\<lambda>c. c \<noteq> d) s"
  using hd_split_on [of d s] split_on_nonempty [of d s] by (simp add: hd_conv_nth)

lemma process_loop_step:
  "process_loop strptime strftime add offset ((i, raw) # rest) =
     (if int i \<le> SKIP_LINES then raw else shifted_line strptime strftime add offset raw) #
     process_loop strptime strftime add offset rest"
proof (cases "CHR '';'' \<in> set (rstrip_newline raw)")
  case False
  then show ?thesis by (simp add: shifted_line_def Let_def)
next
  case True
  have l: "\<not> length (split_on CHR '';'' (rstrip_newline raw)) < 2"
    using length_split_on [OF True] by simp
  have ne: "rstrip_newline raw \<noteq> []" using True by auto
  have t: "'';'' @ join '';'' (tl (split_on CHR '';'' (rstrip_newline raw))) =
           dropWhile (\<lambda>c. c \<noteq> CHR '';'') (rstrip_newline raw)"
    using tl_split_on [OF True] by simp
  show ?thesis
    using True l ne t
    by (simp add: shifted_line_def Let_def nth_split_on_0 split: option.splits)
qed

lemma process_loop_eq:
  "process_loop strptime strftime add offset rows =
     map (\<lambda>(i, raw). if int i \<le> SKIP_LINES then raw
                      else shifted_line strptime strftime add offset raw) rows"
proof (induction rows)
  case Nil
  show ?case by simp
next
  case (Cons r rows)
  obtain i raw where r: "r = (i, raw)" by (cases r)
  show ?case unfolding r process_loop_step Cons.IH by simp
qed

lemma process_file_nth:
  assumes "i < length infile"
  shows "process_file strptime strftime add infile offset ! i =
           (if i < 22 then infile ! i
            else shifted_line strptime strftime add offset (infile ! i))"
  using assms
  by (auto simp: process_file_def process_loop_eq enumerate1_def nth_enumerate_eq SKIP_LINES_def)

lemma process_file_length:
  "length (process_file strptime strftime add infile offset) = length infile"
  by (simp add: process_file_def process_loop_eq enumerate1_def)

lemmas rewriter_defs = process_file_def example_offset_file_def example_header_lines_def
  SKIP_LINES_def rstrip_newline_def shifted_line_def

text \<open>
  C9, as amended. The rewriter writes one line for each line read. Each of the first 22
  lines is written as it was read, whatever it holds. Each later line that contains a
  semicolon, whose first semicolon-separated field converts to a timestamp, and whose
  shifted timestamp is within the range of \<^verbatim>\<open>datetime\<close>, is written with the shifted
  timestamp in place of the first field and the rest of the line, from its first
  semicolon on, as it was. Each other later line is written with its content unchanged:
  a line without a semicolon, even one that is a timestamp and nothing else, a line whose
  first field is no timestamp, and a line whose shifted timestamp is out of range. Every
  data line written ends with one newline.
\<close>

theorem process_file_lines:
  "length (process_file strptime strftime add infile offset) = length infile \<and>
   (i < length infile \<longrightarrow>
      process_file strptime strftime add infile offset ! i =
        (if i < 22 then infile ! i
         else shifted_line strptime strftime add offset (infile ! i))) \<and>
   (CHR '';'' \<in> set (rstrip_newline raw) \<and>
    strptime (strip (takeWhile (\<lambda>c. c \<noteq> CHR '';'') (rstrip_newline raw))) = Some dt \<and>
    add dt offset = Some dt_shifted \<longrightarrow>
      shifted_line strptime strftime add offset raw =
        strftime dt_shifted @ dropWhile (\<lambda>c. c \<noteq> CHR '';'') (rstrip_newline raw) @ [CHR 0x0A]) \<and>
   (CHR '';'' \<notin> set (rstrip_newline raw) \<or>
    strptime (strip (takeWhile (\<lambda>c. c \<noteq> CHR '';'') (rstrip_newline raw))) = None \<or>
    (strptime (strip (takeWhile (\<lambda>c. c \<noteq> CHR '';'') (rstrip_newline raw))) = Some dt \<and>
     add dt offset = None) \<longrightarrow>
      shifted_line strptime strftime add offset raw = rstrip_newline raw @ [CHR 0x0A])"
proof (intro conjI impI)
  show "length (process_file strptime strftime add infile offset) = length infile"
    by (rule process_file_length)
  show "process_file strptime strftime add infile offset ! i =
        (if i < 22 then infile ! i
         else shifted_line strptime strftime add offset (infile ! i))"
    if "i < length infile"
    using that by (rule process_file_nth)
  show "shifted_line strptime strftime add offset raw =
        strftime dt_shifted @ dropWhile (\<lambda>c. c \<noteq> CHR '';'') (rstrip_newline raw) @ [CHR 0x0A]"
    if "CHR '';'' \<in> set (rstrip_newline raw) \<and>
        strptime (strip (takeWhile (\<lambda>c. c \<noteq> CHR '';'') (rstrip_newline raw))) = Some dt \<and>
        add dt offset = Some dt_shifted"
    using that by (simp add: shifted_line_def Let_def)
  show "shifted_line strptime strftime add offset raw = rstrip_newline raw @ [CHR 0x0A]"
    if "CHR '';'' \<notin> set (rstrip_newline raw) \<or>
        strptime (strip (takeWhile (\<lambda>c. c \<noteq> CHR '';'') (rstrip_newline raw))) = None \<or>
        (strptime (strip (takeWhile (\<lambda>c. c \<noteq> CHR '';'') (rstrip_newline raw))) = Some dt \<and>
         add dt offset = None)"
    using that by (auto simp: shifted_line_def Let_def split: option.splits)
qed

text \<open>
  With the offset of \<^verbatim>\<open>1d 2h\<close> the example file keeps its third line, a header line that
  looks like a data line; its first data line becomes \<^verbatim>\<open>02.01.2020 02:00:00;5.0\<close>; the line
  whose first field is no timestamp is written as it is, with a newline.
\<close>

theorem process_file_lines_witness:
  "parse_offset ''1d 2h'' = Inr 93600 \<and>
   length (process_file py_strptime py_strftime datetime_add example_offset_file 93600) = 25 \<and>
   process_file py_strptime py_strftime datetime_add example_offset_file 93600 ! 2 =
     ''01.01.2020 00:00:00;1.0'' @ [CHR 0x0A] \<and>
   process_file py_strptime py_strftime datetime_add example_offset_file 93600 ! 22 =
     ''02.01.2020 02:00:00;5.0'' @ [CHR 0x0A] \<and>
   process_file py_strptime py_strftime datetime_add example_offset_file 93600 ! 23 =
     ''n/a;1;2'' @ [CHR 0x0A]"
proof -
  have o: "parse_offset ''1d 2h'' = Inr 93600"
    by (simp add: offset_defs Let_def)
  have n: "length example_offset_file = 25"
    "example_offset_file ! 2 = ''01.01.2020 00:00:00;1.0'' @ [CHR 0x0A]"
    "example_offset_file ! 22 = ''01.01.2020 00:00:00;5.0'' @ [CHR 0x0A]"
    "example_offset_file ! 23 = ''n/a;1;2''"
    by (simp_all add: example_offset_file_def example_header_lines_def)
  have r: "rstrip_newline (''01.01.2020 00:00:00;5.0'' @ [CHR 0x0A]) = ''01.01.2020 00:00:00;5.0''"
    "rstrip_newline ''n/a;1;2'' = ''n/a;1;2''"
    by (simp_all add: rstrip_newline_def)
  have p: "py_strptime (strip (takeWhile (\<lambda>c. c \<noteq> CHR '';'') ''01.01.2020 00:00:00;5.0'')) =
             Some 63713520000"
    "py_strptime (strip (takeWhile (\<lambda>c. c \<noteq> CHR '';'') ''n/a;1;2'')) = None"
    by (simp_all add: string_defs library_defs Let_def)
  have d: "datetime_add 63713520000 93600 = Some 63713613600"
    by (simp add: datetime_add_def Let_def)
  have f: "py_strftime 63713613600 = ''02.01.2020 02:00:00''"
    by (simp add: library_defs Let_def)
  note T = process_file_lines [of py_strptime py_strftime datetime_add example_offset_file 93600]
  have l: "length (process_file py_strptime py_strftime datetime_add example_offset_file 93600) = 25"
    using T [THEN conjunct1] n(1) by simp
  have a: "process_file py_strptime py_strftime datetime_add example_offset_file 93600 ! 2 =
     ''01.01.2020 00:00:00;1.0'' @ [CHR 0x0A]"
    using T [of 2, THEN conjunct2, THEN conjunct1] n(1,2) by simp
  have s1: "shifted_line py_strptime py_strftime datetime_add 93600
              (''01.01.2020 00:00:00;5.0'' @ [CHR 0x0A]) =
            ''02.01.2020 02:00:00;5.0'' @ [CHR 0x0A]"
    using T [of _ "''01.01.2020 00:00:00;5.0'' @ [CHR 0x0A]" 63713520000 63713613600,
             THEN conjunct2, THEN conjunct2, THEN conjunct1]
    unfolding r using p(1) d by (simp add: f)
  have s2: "shifted_line py_strptime py_strftime datetime_add 93600 ''n/a;1;2'' =
            ''n/a;1;2'' @ [CHR 0x0A]"
    using T [of _ "''n/a;1;2''" 0, THEN conjunct2, THEN conjunct2, THEN conjunct2]
    unfolding r using p(2) by simp
  have b: "process_file py_strptime py_strftime datetime_add example_offset_file 93600 ! 22 =
     ''02.01.2020 02:00:00;5.0'' @ [CHR 0x0A]"
    using T [of 22, THEN conjunct2, THEN conjunct1] n(1,3) s1 by simp
  have c: "process_file py_strptime py_strftime datetime_add example_offset_file 93600 ! 23 =
     ''n/a;1;2'' @ [CHR 0x0A]"
    using T [of 23, THEN conjunct2, THEN conjunct1] n(1,4) s2 by simp
  show ?thesis using o l a b c by simp
qed

text \<open>
  Two data lines whose first field converts to a timestamp and that are written as they
  were read. The line \<^verbatim>\<open>31.12.9999 23:59:59;5.0\<close> with the offset of \<^verbatim>\<open>1d\<close>: \<^verbatim>\<open>dt + offset\<close>
  raises \<^verbatim>\<open>OverflowError\<close> after the year 9999, and the \<^verbatim>\<open>except\<close> branch writes the line
  unchanged. The line \<^verbatim>\<open>01.01.2020 00:00:00\<close> with the offset of \<^verbatim>\<open>1d 2h\<close>: it has no
  semicolon, and the test for one writes it unchanged before any field is converted.
\<close>

theorem process_file_overflow_unchanged:
  "parse_offset ''1d'' = Inr 86400 \<and>
   py_strptime ''31.12.9999 23:59:59'' = Some 315537983999 \<and>
   process_file py_strptime py_strftime datetime_add
     (example_header_lines @ [''31.12.9999 23:59:59;5.0'' @ [CHR 0x0A]]) 86400 =
     example_header_lines @ [''31.12.9999 23:59:59;5.0'' @ [CHR 0x0A]] \<and>
   parse_offset ''1d 2h'' = Inr 93600 \<and>
   py_strptime (strip (hd (split_on CHR '';'' ''01.01.2020 00:00:00''))) = Some 63713520000 \<and>
   datetime_add 63713520000 93600 = Some 63713613600 \<and>
   process_file py_strptime py_strftime datetime_add
     (example_header_lines @ [''01.01.2020 00:00:00'' @ [CHR 0x0A]]) 93600 =
     example_header_lines @ [''01.01.2020 00:00:00'' @ [CHR 0x0A]]"
proof -
  have o: "parse_offset ''1d'' = Inr 86400" "parse_offset ''1d 2h'' = Inr 93600"
    by (simp_all add: offset_defs Let_def)
  have p: "py_strptime ''31.12.9999 23:59:59'' = Some 315537983999"
    "py_strptime (strip (hd (split_on CHR '';'' ''01.01.2020 00:00:00''))) = Some 63713520000"
    by (simp_all add: library_defs string_defs Let_def)
  have d: "datetime_add 63713520000 93600 = Some 63713613600"
    by (simp add: datetime_add_def Let_def)
  have f: "process_file py_strptime py_strftime datetime_add
     (example_header_lines @ [''31.12.9999 23:59:59;5.0'' @ [CHR 0x0A]]) 86400 =
     example_header_lines @ [''31.12.9999 23:59:59;5.0'' @ [CHR 0x0A]]"
    by (simp add: process_file_def example_header_lines_def SKIP_LINES_def rstrip_newline_def
          string_defs library_defs Let_def)
  have g: "process_file py_strptime py_strftime datetime_add
     (example_header_lines @ [''01.01.2020 00:00:00'' @ [CHR 0x0A]]) 93600 =
     example_header_lines @ [''01.01.2020 00:00:00'' @ [CHR 0x0A]]"
    by (simp add: process_file_def example_header_lines_def SKIP_LINES_def rstrip_newline_def
          string_defs library_defs Let_def)
  show ?thesis using o p d f g by simp
qed

end
